theory Spec2Isabelle
  imports Main "HOL-Library.Multiset"
begin

section \<open>Data model of \<^verbatim>\<open>operation.go\<close>\<close>

text \<open>
  \<^verbatim>\<open>type Change struct { BaseDir, Source, Target string; IsDir bool }\<close>:
  one filename change. Go strings are byte sequences; \<open>string\<close> is a list of bytes.
\<close>

record Change =
  BaseDir :: string
  Source :: string
  Target :: string
  IsDir :: bool

text \<open>
  Go \<^verbatim>\<open>error\<close> values that reach the caller of \<^verbatim>\<open>apply\<close> and \<^verbatim>\<open>undo\<close>.
  \<^item> \<open>errConflictDetected\<close> is the package variable of that name.
  \<^item> \<open>PathError op path cause\<close> and \<open>LinkError op old new cause\<close> are the two error
    types of package \<^verbatim>\<open>os\<close> (\<^verbatim>\<open>os.MkdirAll\<close>, \<^verbatim>\<open>os.Create\<close>, \<^verbatim>\<open>os.ReadFile\<close>
    fail with the first, \<^verbatim>\<open>os.Rename\<close> with the second); \<open>OtherError\<close> is any
    other library error (JSON syntax, short write).
  \<^item> The last three are the \<^verbatim>\<open>fmt.Errorf\<close> values built in \<^verbatim>\<open>handleErrors\<close>:
    \<open>errSomeNotRenamed file\<close> is "Some files could not be renamed. The successful
    operations have been written to <file>. ...", \<open>errNotRenamed\<close> is "The above files
    could not be renamed", \<open>errOperationFailed\<close> is "The renaming operation failed due
    to the above errors".
\<close>

datatype error =
    errConflictDetected
  | PathError string string string
  | LinkError string string string string
  | OtherError string
  | errSomeNotRenamed string
  | errNotRenamed
  | errOperationFailed

text \<open>\<^verbatim>\<open>type renameError struct { entry Change; err error }\<close>\<close>

record renameError =
  entry :: Change
  err :: error

text \<open>
  Modelled from the spec: the types \<^verbatim>\<open>conflict\<close> and \<^verbatim>\<open>Conflict\<close> of the field
  \<^verbatim>\<open>conflicts map[conflict][]Conflict\<close> are declared outside \<^verbatim>\<open>operation.go\<close>.
  The spec (section 3, ConflictRecord) describes a conflict kind plus the candidates
  implicated, keyed by kind; section 4.3 enumerates the kinds.
\<close>

datatype conflict =
    DuplicateTarget
  | TargetExists
  | EmptyResult
  | TrailingPeriod
  | UnchangedName

type_synonym Conflict = "Change list"

text \<open>
  \<^verbatim>\<open>type Operation struct\<close>, field by field. \<open>searchRegex\<close> is a compiled
  \<^verbatim>\<open>*regexp.Regexp\<close>, represented by its source expression (\<open>None\<close> for nil); the
  field \<^verbatim>\<open>sort\<close> is named \<open>sortName\<close> and \<^verbatim>\<open>errors\<close> is named \<open>errs\<close>, since
  \<open>sort\<close> is a list function of HOL. Go's \<^verbatim>\<open>int\<close> fields are \<open>int\<close>.
\<close>

record Operation =
  paths :: "Change list"
  matches :: "Change list"
  conflicts :: "conflict \<rightharpoonup> Conflict list"
  findString :: string
  replacement :: string
  startNumber :: int
  exec :: bool
  fixConflicts :: bool
  includeHidden :: bool
  includeDir :: bool
  onlyDir :: bool
  ignoreCase :: bool
  ignoreExt :: bool
  searchRegex :: "string option"
  directories :: "string list"
  recursive :: bool
  undoFile :: string
  outputFile :: string
  workingDir :: string
  stringMode :: bool
  excludeFilter :: "string list"
  maxDepth :: int
  sortName :: string
  reverseSort :: bool
  quiet :: bool
  errs :: "renameError list"

text \<open>\<^verbatim>\<open>type mapFile struct { Date string; Operations []Change }\<close>: the journal.\<close>

record mapFile =
  Date :: string
  Operations :: "Change list"

text \<open>
  What the program writes to standard output, as a list of events. The rendering of
  the tables (\<^verbatim>\<open>printTable\<close>) and of the conflict report (\<^verbatim>\<open>reportConflicts\<close>) is
  outside \<^verbatim>\<open>operation.go\<close>; an event carries the rows handed to it.
  \<^item> \<open>PrintNoMatches\<close>: "Failed to match any files";
  \<^item> \<open>ReportConflicts\<close>: the call \<^verbatim>\<open>op.reportConflicts()\<close>;
  \<^item> \<open>PrintChanges ms\<close>: \<^verbatim>\<open>op.printChanges()\<close>, one "ok" row per match;
  \<^item> \<open>PrintExecHint\<close>: "Append the -x flag to apply the above changes";
  \<^item> \<open>ReportErrors ms es\<close>: \<^verbatim>\<open>op.reportErrors()\<close>, one "success" row per match
    followed by one row per error.
\<close>

datatype printed =
    PrintNoMatches
  | ReportConflicts
  | PrintChanges "Change list"
  | PrintExecHint
  | ReportErrors "Change list" "renameError list"

section \<open>The wall clock and \<^verbatim>\<open>time.Format\<close>\<close>

text \<open>
  The fields of a \<^verbatim>\<open>time.Time\<close> that the two layouts of this file read: the civil
  date and time and the zone offset in seconds east of UTC.
\<close>

record gotime =
  year :: nat
  month :: nat
  day :: nat
  hour :: nat
  minute :: nat
  second :: nat
  zoneOffset :: int

text \<open>The decimal digits of a number, most significant first.\<close>

fun digits :: "nat \<Rightarrow> string" where
  "digits n =
     (if n < 10 then [''0123456789'' ! n]
      else digits (n div 10) @ [''0123456789'' ! (n mod 10)])"

declare digits.simps [simp del]

text \<open>
  \<^verbatim>\<open>appendInt(b, x, width)\<close> of package \<^verbatim>\<open>time\<close>, for \<open>x \<ge> 0\<close>: the decimal digits
  of \<open>x\<close>, padded with zeros on the left up to \<open>width\<close>. Width 0 pads nothing.
\<close>

definition appendInt :: "nat \<Rightarrow> nat \<Rightarrow> string" where
  "appendInt x width = replicate (width - length (digits x)) (CHR ''0'') @ digits x"

text \<open>
  \<^verbatim>\<open>t.Format("2006-01-2T15-04-05PM")\<close>, the layout of \<^verbatim>\<open>handleErrors\<close>. Package
  \<^verbatim>\<open>time\<close> splits the layout into the chunks
  \<^verbatim>\<open>2006\<close> (year, width 4), \<^verbatim>\<open>01\<close> (month, width 2), \<^verbatim>\<open>2\<close> (day of the month,
  no padding), \<^verbatim>\<open>15\<close> (hour 0 to 23, width 2), \<^verbatim>\<open>04\<close> (minute, width 2),
  \<^verbatim>\<open>05\<close> (second, width 2) and \<^verbatim>\<open>PM\<close> (AM or PM mark); the other characters
  are copied.
\<close>

definition formatRecovery :: "gotime \<Rightarrow> string" where
  "formatRecovery t =
     appendInt (year t) 4 @ ''-'' @ appendInt (month t) 2 @ ''-'' @ appendInt (day t) 0
     @ ''T'' @ appendInt (hour t) 2 @ ''-'' @ appendInt (minute t) 2 @ ''-''
     @ appendInt (second t) 2 @ (if hour t \<ge> 12 then ''PM'' else ''AM'')"

text \<open>
  \<^verbatim>\<open>t.Format(time.RFC3339)\<close>, layout \<^verbatim>\<open>2006-01-02T15:04:05Z07:00\<close>: here the day
  chunk is \<^verbatim>\<open>02\<close> (width 2), and the zone is \<^verbatim>\<open>Z\<close> for offset 0, else the
  offset in whole minutes (Go's division truncates towards zero) as sign, hours and
  minutes.
\<close>

definition formatZone :: "int \<Rightarrow> string" where
  "formatZone off =
     (if off = 0 then ''Z''
      else let zone = (if off < 0 then - ((- off) div 60) else off div 60);
               az = nat \<bar>zone\<bar>
           in (if zone < 0 then ''-'' else ''+'')
              @ appendInt (az div 60) 2 @ '':'' @ appendInt (az mod 60) 2)"

definition formatRFC3339 :: "gotime \<Rightarrow> string" where
  "formatRFC3339 t =
     appendInt (year t) 4 @ ''-'' @ appendInt (month t) 2 @ ''-'' @ appendInt (day t) 2
     @ ''T'' @ appendInt (hour t) 2 @ '':'' @ appendInt (minute t) 2 @ '':''
     @ appendInt (second t) 2 @ formatZone (zoneOffset t)"

text \<open>
  The file name built at lines 346 to 349:
  \<^verbatim>\<open>fmt.Sprintf(".f2_%s.json", time.Now().Format("2006-01-2T15-04-05PM"))\<close>.
\<close>

definition recoveryFile :: "gotime \<Rightarrow> string" where
  "recoveryFile t = ''.f2_'' @ formatRecovery t @ ''.json''"

section \<open>\<^verbatim>\<open>sort.SliceStable\<close>\<close>

text \<open>
  Outside undo mode \<^verbatim>\<open>sortMatches\<close> hands \<^verbatim>\<open>sort.SliceStable\<close> a comparison that
  is not an ordering, so the result depends on the algorithm. This is the algorithm of Go's
  package \<^verbatim>\<open>sort\<close> (\<^verbatim>\<open>stable\<close>, \<^verbatim>\<open>insertionSort\<close>, \<^verbatim>\<open>symMerge\<close>,
  \<^verbatim>\<open>rotate\<close>, \<^verbatim>\<open>swapRange\<close>): insertion sort on blocks of 20 elements, then
  in-place merging of neighbouring blocks. The comparison \<^verbatim>\<open>less(i, j)\<close> of the Go
  code reads the slice as it is at the time of the call, so it is a function of the two
  elements at positions \<open>i\<close> and \<open>j\<close>.

  \<open>Swap\<close> exchanges two positions. The package only passes positions below the length
  of the slice; outside them the model leaves the list as it is.
\<close>

definition Swap :: "'a list \<Rightarrow> nat \<Rightarrow> nat \<Rightarrow> 'a list" where
  "Swap xs i j =
     (if i < length xs \<and> j < length xs then xs[i := xs ! j, j := xs ! i] else xs)"

text \<open>
  \<^verbatim>\<open>for j := i; j > a && data.Less(j, j-1); j-- { data.Swap(j, j-1) }\<close>
\<close>

function insertLoop :: "('a \<Rightarrow> 'a \<Rightarrow> bool) \<Rightarrow> 'a list \<Rightarrow> nat \<Rightarrow> nat \<Rightarrow> 'a list" where
  "insertLoop lt xs a j =
     (if j > a \<and> lt (xs ! j) (xs ! (j - 1))
      then insertLoop lt (Swap xs j (j - 1)) a (j - 1)
      else xs)"
  by pat_completeness auto
termination
  by (relation "measure (\<lambda>(lt, xs, a, j). j)") auto

declare insertLoop.simps [simp del]

text \<open>\<^verbatim>\<open>for i := a + 1; i < b; i++ { ... }\<close>, entered at \<open>i\<close>.\<close>

function insertionSortFrom ::
  "('a \<Rightarrow> 'a \<Rightarrow> bool) \<Rightarrow> 'a list \<Rightarrow> nat \<Rightarrow> nat \<Rightarrow> nat \<Rightarrow> 'a list" where
  "insertionSortFrom lt xs a b i =
     (if i < b then insertionSortFrom lt (insertLoop lt xs a i) a b (i + 1) else xs)"
  by pat_completeness auto
termination
  by (relation "measure (\<lambda>(lt, xs, a, b, i). b - i)") auto

declare insertionSortFrom.simps [simp del]

definition insertionSort :: "('a \<Rightarrow> 'a \<Rightarrow> bool) \<Rightarrow> 'a list \<Rightarrow> nat \<Rightarrow> nat \<Rightarrow> 'a list" where
  "insertionSort lt xs a b = insertionSortFrom lt xs a b (a + 1)"

text \<open>\<^verbatim>\<open>swapRange(data, a, b, n)\<close>: \<^verbatim>\<open>for i := 0; i < n; i++ { data.Swap(a+i, b+i) }\<close>\<close>

function swapRangeFrom :: "'a list \<Rightarrow> nat \<Rightarrow> nat \<Rightarrow> nat \<Rightarrow> nat \<Rightarrow> 'a list" where
  "swapRangeFrom xs a b n i =
     (if i < n then swapRangeFrom (Swap xs (a + i) (b + i)) a b n (i + 1) else xs)"
  by pat_completeness auto
termination
  by (relation "measure (\<lambda>(xs, a, b, n, i). n - i)") auto

declare swapRangeFrom.simps [simp del]

definition swapRange :: "'a list \<Rightarrow> nat \<Rightarrow> nat \<Rightarrow> nat \<Rightarrow> 'a list" where
  "swapRange xs a b n = swapRangeFrom xs a b n 0"

text \<open>
  \<^verbatim>\<open>rotate(data, a, m, b)\<close> exchanges the neighbouring blocks \<open>[a, m)\<close> and
  \<open>[m, b)\<close>. Its loop runs on \<open>i = m - a\<close> and \<open>j = b - m\<close> while they differ;
  \<^verbatim>\<open>symMerge\<close> calls it with \<open>a < m < b\<close> only, so both are positive, and the model
  leaves the loop when one of them is 0 (where the Go loop would not end).
\<close>

function rotateLoop :: "'a list \<Rightarrow> nat \<Rightarrow> nat \<Rightarrow> nat \<Rightarrow> 'a list" where
  "rotateLoop xs m i j =
     (if i \<noteq> j \<and> 0 < i \<and> 0 < j then
        (if i > j then rotateLoop (swapRange xs (m - i) m j) m (i - j) j
         else rotateLoop (swapRange xs (m - i) (m + j - i) i) m i (j - i))
      else swapRange xs (m - i) m i)"
  by pat_completeness auto
termination
  by (relation "measure (\<lambda>(xs, m, i, j). i + j)") auto

declare rotateLoop.simps [simp del]

definition rotate_go :: "'a list \<Rightarrow> nat \<Rightarrow> nat \<Rightarrow> nat \<Rightarrow> 'a list" where
  "rotate_go xs a m b = rotateLoop xs m (m - a) (b - m)"

text \<open>
  The three binary searches of \<^verbatim>\<open>symMerge\<close>, each
  \<^verbatim>\<open>for i < j { h := int(uint(i+j) >> 1); if ... { i = h + 1 } else { j = h } }\<close>:
  \<^item> \<open>searchLess\<close> (one element on the left, at \<open>a\<close>) tests \<^verbatim>\<open>data.Less(h, a)\<close>;
  \<^item> \<open>searchNotLess\<close> (one element on the right, at \<open>m\<close>) tests \<^verbatim>\<open>!data.Less(m, h)\<close>;
  \<^item> \<open>searchSym\<close> (the general case) tests \<^verbatim>\<open>!data.Less(p-c, c)\<close>.
\<close>

function searchLess :: "('a \<Rightarrow> 'a \<Rightarrow> bool) \<Rightarrow> 'a list \<Rightarrow> nat \<Rightarrow> nat \<Rightarrow> nat \<Rightarrow> nat" where
  "searchLess lt xs a i j =
     (if i < j then
        (let h = (i + j) div 2
         in if lt (xs ! h) (xs ! a) then searchLess lt xs a (h + 1) j
            else searchLess lt xs a i h)
      else i)"
  by pat_completeness auto
termination
  by (relation "measure (\<lambda>(lt, xs, a, i, j). j - i)") auto

declare searchLess.simps [simp del]

function searchNotLess :: "('a \<Rightarrow> 'a \<Rightarrow> bool) \<Rightarrow> 'a list \<Rightarrow> nat \<Rightarrow> nat \<Rightarrow> nat \<Rightarrow> nat" where
  "searchNotLess lt xs m i j =
     (if i < j then
        (let h = (i + j) div 2
         in if \<not> lt (xs ! m) (xs ! h) then searchNotLess lt xs m (h + 1) j
            else searchNotLess lt xs m i h)
      else i)"
  by pat_completeness auto
termination
  by (relation "measure (\<lambda>(lt, xs, m, i, j). j - i)") auto

declare searchNotLess.simps [simp del]

function searchSym :: "('a \<Rightarrow> 'a \<Rightarrow> bool) \<Rightarrow> 'a list \<Rightarrow> nat \<Rightarrow> nat \<Rightarrow> nat \<Rightarrow> nat" where
  "searchSym lt xs p start r =
     (if start < r then
        (let c = (start + r) div 2
         in if \<not> lt (xs ! (p - c)) (xs ! c) then searchSym lt xs p (c + 1) r
            else searchSym lt xs p start c)
      else start)"
  by pat_completeness auto
termination
  by (relation "measure (\<lambda>(lt, xs, p, start, r). r - start)") auto

declare searchSym.simps [simp del]

text \<open>
  \<^verbatim>\<open>for k := a; k < i-1; k++ { data.Swap(k, k+1) }\<close> and
  \<^verbatim>\<open>for k := m; k > i; k-- { data.Swap(k, k-1) }\<close>
\<close>

function shiftUp :: "'a list \<Rightarrow> nat \<Rightarrow> nat \<Rightarrow> 'a list" where
  "shiftUp xs k i = (if k + 1 < i then shiftUp (Swap xs k (k + 1)) (k + 1) i else xs)"
  by pat_completeness auto
termination
  by (relation "measure (\<lambda>(xs, k, i). i - k)") auto

declare shiftUp.simps [simp del]

function shiftDown :: "'a list \<Rightarrow> nat \<Rightarrow> nat \<Rightarrow> 'a list" where
  "shiftDown xs k i = (if k > i then shiftDown (Swap xs k (k - 1)) (k - 1) i else xs)"
  by pat_completeness auto
termination
  by (relation "measure (\<lambda>(xs, k, i). k)") auto

declare shiftDown.simps [simp del]

text \<open>
  \<^verbatim>\<open>symMerge(data, a, m, b)\<close> merges the sorted blocks \<open>[a, m)\<close> and \<open>[m, b)\<close>.
  With one element on either side it inserts that element by binary search. Otherwise,
  with \<^verbatim>\<open>mid := int(uint(a+b) >> 1)\<close>, that is \<open>(a + b) div 2\<close>, and
  \<^verbatim>\<open>n := mid + m\<close>, it searches the split point \<open>start\<close> (\<open>symStart\<close>), sets
  \<^verbatim>\<open>end := n - start\<close>, rotates \<open>[start, m)\<close> with \<open>[m, end)\<close> (\<open>symRotate\<close>) and
  merges \<open>[a, start, mid)\<close> and then \<open>[mid, end, b)\<close>.
\<close>

definition symStart :: "('a \<Rightarrow> 'a \<Rightarrow> bool) \<Rightarrow> 'a list \<Rightarrow> nat \<Rightarrow> nat \<Rightarrow> nat \<Rightarrow> nat" where
  "symStart lt xs a m b =
     (let mid = (a + b) div 2;
          n = mid + m;
          start = (if m > mid then n - b else a);
          r = (if m > mid then mid else m);
          p = n - 1
      in searchSym lt xs p start r)"

definition symRotate :: "('a \<Rightarrow> 'a \<Rightarrow> bool) \<Rightarrow> 'a list \<Rightarrow> nat \<Rightarrow> nat \<Rightarrow> nat \<Rightarrow> 'a list" where
  "symRotate lt xs a m b =
     (let start = symStart lt xs a m b;
          end' = (a + b) div 2 + m - start
      in if start < m \<and> m < end' then rotate_go xs start m end' else xs)"

function symMerge :: "('a \<Rightarrow> 'a \<Rightarrow> bool) \<Rightarrow> 'a list \<Rightarrow> nat \<Rightarrow> nat \<Rightarrow> nat \<Rightarrow> 'a list" where
  "symMerge lt xs a m b =
     (if m - a = 1 then shiftUp xs a (searchLess lt xs a m b)
      else if b - m = 1 then shiftDown xs m (searchNotLess lt xs m a m)
      else
        (let xs2 = (if a < symStart lt xs a m b \<and> symStart lt xs a m b < (a + b) div 2
                    then symMerge lt (symRotate lt xs a m b) a (symStart lt xs a m b)
                           ((a + b) div 2)
                    else symRotate lt xs a m b)
         in if (a + b) div 2 < (a + b) div 2 + m - symStart lt xs a m b
               \<and> (a + b) div 2 + m - symStart lt xs a m b < b
            then symMerge lt xs2 ((a + b) div 2)
                   ((a + b) div 2 + m - symStart lt xs a m b) b
            else xs2))"
  by pat_completeness auto
termination
  apply (relation "measure (\<lambda>(lt, xs, a, m, b). b - a)")
    apply simp
   apply (simp only: in_measure prod.case)
   apply linarith
  apply (simp only: in_measure prod.case)
  apply linarith
  done

declare symMerge.simps [simp del]

text \<open>
  \<^verbatim>\<open>stable(data, n)\<close>, first part: insertion sort of the blocks
  \<open>[0, 20)\<close>, \<open>[20, 40)\<close>, ... and of the rest:
  \<^verbatim>\<open>for b <= n { insertionSort(data, a, b); a = b; b += blockSize }\<close>
  \<^verbatim>\<open>insertionSort(data, a, n)\<close>
\<close>

function stableBlocks :: "('a \<Rightarrow> 'a \<Rightarrow> bool) \<Rightarrow> 'a list \<Rightarrow> nat \<Rightarrow> nat \<Rightarrow> nat \<Rightarrow> 'a list" where
  "stableBlocks lt xs a b n =
     (if b \<le> n then stableBlocks lt (insertionSort lt xs a b) b (b + 20) n
      else insertionSort lt xs a n)"
  by pat_completeness auto
termination
  by (relation "measure (\<lambda>(lt, xs, a, b, n). n + 1 - b)") auto

declare stableBlocks.simps [simp del]

text \<open>
  Second part, one pass over the blocks of size \<open>blockSize\<close>:
  \<^verbatim>\<open>for b <= n { symMerge(data, a, a+blockSize, b); a = b; b += 2 * blockSize }\<close>
  \<^verbatim>\<open>if m := a + blockSize; m < n { symMerge(data, a, m, n) }\<close>
  and the loop of passes, \<^verbatim>\<open>for blockSize < n { ...; blockSize *= 2 }\<close>. The block
  size starts at 20 and doubles, so it is positive; the model leaves either loop when it
  is 0.
\<close>

function stablePass ::
  "('a \<Rightarrow> 'a \<Rightarrow> bool) \<Rightarrow> 'a list \<Rightarrow> nat \<Rightarrow> nat \<Rightarrow> nat \<Rightarrow> nat \<Rightarrow> 'a list" where
  "stablePass lt xs a b n blockSize =
     (if b \<le> n \<and> 0 < blockSize
      then stablePass lt (symMerge lt xs a (a + blockSize) b) b (b + 2 * blockSize) n blockSize
      else if a + blockSize < n then symMerge lt xs a (a + blockSize) n else xs)"
  by pat_completeness auto
termination
  by (relation "measure (\<lambda>(lt, xs, a, b, n, blockSize). n + 1 - b)") auto

declare stablePass.simps [simp del]

function stableMerge :: "('a \<Rightarrow> 'a \<Rightarrow> bool) \<Rightarrow> 'a list \<Rightarrow> nat \<Rightarrow> nat \<Rightarrow> 'a list" where
  "stableMerge lt xs n blockSize =
     (if blockSize < n \<and> 0 < blockSize
      then stableMerge lt (stablePass lt xs 0 (2 * blockSize) n blockSize) n (2 * blockSize)
      else xs)"
  by pat_completeness auto
termination
  by (relation "measure (\<lambda>(lt, xs, n, blockSize). n - blockSize)") auto

declare stableMerge.simps [simp del]

text \<open>\<^verbatim>\<open>sort.SliceStable(x, less)\<close> is \<^verbatim>\<open>stable\<close> at the length of the slice.\<close>

definition SliceStable :: "('a \<Rightarrow> 'a \<Rightarrow> bool) \<Rightarrow> 'a list \<Rightarrow> 'a list" where
  "SliceStable lt xs =
     stableMerge lt (stableBlocks lt xs 0 20 (length xs)) (length xs) 20"

section \<open>The environment\<close>

text \<open>
  Everything \<^verbatim>\<open>operation.go\<close> calls but does not define: the operating system, the
  libraries, and the functions of the package that live in other files. \<open>'fs\<close> is the
  state of the filesystem and \<open>'b\<close> the content of a file. Every call that can change
  the filesystem returns the new state, also when it fails.
  \<^item> \<open>validate\<close> is \<^verbatim>\<open>op.validate()\<close>, the conflict validator. It reads the
    operation and the filesystem and leaves its findings in \<^verbatim>\<open>op.conflicts\<close>; with
    auto-fix it may rewrite \<^verbatim>\<open>op.matches\<close>. It returns both fields.
  \<^item> \<open>sortBy\<close> is the outcome of \<^verbatim>\<open>op.sortBy()\<close>, whose comparisons read file
    sizes and times through \<^verbatim>\<open>os.Stat\<close> and \<^verbatim>\<open>times.Stat\<close>: the error it
    returns and the matches as it leaves them.
  \<^item> \<open>filepath_Join\<close>, \<open>filepath_Dir\<close> and \<open>GOOS\<close> are \<^verbatim>\<open>filepath.Join\<close> (of two
    elements), \<^verbatim>\<open>filepath.Dir\<close> and \<^verbatim>\<open>runtime.GOOS\<close>.
  \<^item> \<open>os_MkdirAll\<close>, \<open>os_Rename\<close>, \<open>os_Create\<close>, \<open>os_ReadFile\<close> are the calls of
    package \<^verbatim>\<open>os\<close>; \<open>file_Write\<close> is \<^verbatim>\<open>writer.Write(b)\<close> followed by
    \<^verbatim>\<open>writer.Flush()\<close> on the created file (the first error of the two), and
    \<open>file_Close\<close> is \<^verbatim>\<open>file.Close()\<close>.
  \<^item> \<open>json_MarshalIndent\<close> and \<open>json_Unmarshal\<close> are the two calls of
    \<^verbatim>\<open>encoding/json\<close> on a \<^verbatim>\<open>mapFile\<close>.
  \<^item> \<open>time_Now\<close> is \<^verbatim>\<open>time.Now()\<close>.
\<close>

record ('fs, 'b) env =
  validate :: "'fs \<Rightarrow> Operation \<Rightarrow> Change list \<times> (conflict \<rightharpoonup> Conflict list)"
  sortBy :: "'fs \<Rightarrow> Operation \<Rightarrow> error option \<times> Change list"
  filepath_Join :: "string \<Rightarrow> string \<Rightarrow> string"
  filepath_Dir :: "string \<Rightarrow> string"
  GOOS :: string
  os_MkdirAll :: "'fs \<Rightarrow> string \<Rightarrow> error option \<times> 'fs"
  os_Rename :: "'fs \<Rightarrow> string \<Rightarrow> string \<Rightarrow> error option \<times> 'fs"
  os_Create :: "'fs \<Rightarrow> string \<Rightarrow> error option \<times> 'fs"
  file_Write :: "'fs \<Rightarrow> string \<Rightarrow> 'b \<Rightarrow> error option \<times> 'fs"
  file_Close :: "'fs \<Rightarrow> string \<Rightarrow> error option \<times> 'fs"
  os_ReadFile :: "'fs \<Rightarrow> string \<Rightarrow> error + 'b"
  json_MarshalIndent :: "mapFile \<Rightarrow> error + 'b"
  json_Unmarshal :: "'b \<Rightarrow> error + mapFile"
  time_Now :: gotime

definition windows :: string where
  "windows = ''windows''"

section \<open>The operations\<close>

text \<open>
  \<^verbatim>\<open>func (op *Operation) writeToFile(outputFile string) (err error)\<close>.
  A failed \<^verbatim>\<open>os.Create\<close> returns at once. After it, the deferred \<^verbatim>\<open>file.Close()\<close>
  always runs, and its error, if any, replaces the one of the body.
\<close>

definition writeToFile ::
  "('fs, 'b) env \<Rightarrow> Operation \<Rightarrow> string \<Rightarrow> 'fs \<Rightarrow> error option \<times> 'fs" where
  "writeToFile env op file fs =
     (case os_Create env fs file of
        (Some e, fs1) \<Rightarrow> (Some e, fs1)
      | (None, fs1) \<Rightarrow>
          (let mf = \<lparr>Date = formatRFC3339 (time_Now env), Operations = matches op\<rparr>;
               body = (case json_MarshalIndent env mf of
                         Inl e \<Rightarrow> (Some e, fs1)
                       | Inr b \<Rightarrow> file_Write env fs1 file b);
               closed = file_Close env (snd body) file
           in (case fst closed of Some ferr \<Rightarrow> Some ferr | None \<Rightarrow> fst body, snd closed)))"

text \<open>
  \<^verbatim>\<open>func (op *Operation) sortMatches()\<close>: \<open>sortLess op\<close> is the function literal
  handed to \<^verbatim>\<open>sort.SliceStable\<close>, on the elements at positions \<open>i\<close> and \<open>j\<close>.
  \<^verbatim>\<open>len\<close> of a Go string is its number of bytes.
\<close>

definition sortLess :: "Operation \<Rightarrow> Change \<Rightarrow> Change \<Rightarrow> bool" where
  "sortLess op ci cj =
     (if undoFile op \<noteq> [] then length (BaseDir ci) < length (BaseDir cj)
      else if \<not> IsDir ci then True
      else length (BaseDir ci) > length (BaseDir cj))"

definition sortMatches :: "Operation \<Rightarrow> Operation" where
  "sortMatches op = op\<lparr>matches := SliceStable (sortLess op) (matches op)\<rparr>"

text \<open>
  The body of the loop of \<^verbatim>\<open>rename\<close> for one match: the error it ends with, if
  any, and the filesystem after it. When the target contains a slash (or, on Windows, a
  backslash) the directories are created first, and a failure there skips the rename
  (\<^verbatim>\<open>continue\<close>).
\<close>

definition renameOne :: "('fs, 'b) env \<Rightarrow> Change \<Rightarrow> 'fs \<Rightarrow> error option \<times> 'fs" where
  "renameOne env ch fs =
     (let source = filepath_Join env (BaseDir ch) (Source ch);
          target = filepath_Join env (BaseDir ch) (Target ch)
      in if CHR ''/'' \<in> set (Target ch)
            \<or> (CHR 0x5C \<in> set (Target ch) \<and> GOOS env = windows)
         then (case os_MkdirAll env fs
                      (filepath_Join env (BaseDir ch) (filepath_Dir env (Target ch))) of
                 (Some e, fs1) \<Rightarrow> (Some e, fs1)
               | (None, fs1) \<Rightarrow> os_Rename env fs1 source target)
         else os_Rename env fs source target)"

text \<open>
  One turn of the loop on the pair of \<^verbatim>\<open>errs\<close> and the filesystem: a failure is
  appended as \<^verbatim>\<open>renameError{entry: ch, err: err}\<close>.
\<close>

definition renameStep ::
  "('fs, 'b) env \<Rightarrow> renameError list \<times> 'fs \<Rightarrow> Change \<Rightarrow> renameError list \<times> 'fs" where
  "renameStep env acc ch =
     (case renameOne env ch (snd acc) of
        (Some e, fs1) \<Rightarrow> (fst acc @ [\<lparr>entry = ch, err = e\<rparr>], fs1)
      | (None, fs1) \<Rightarrow> (fst acc, fs1))"

text \<open>
  \<^verbatim>\<open>func (op *Operation) rename()\<close>: the loop over \<^verbatim>\<open>op.matches\<close>, then
  \<^verbatim>\<open>op.errors = errs\<close>.
\<close>

definition rename :: "('fs, 'b) env \<Rightarrow> Operation \<Rightarrow> 'fs \<Rightarrow> Operation \<times> 'fs" where
  "rename env op fs =
     (let r = foldl (renameStep env) ([], fs) (matches op)
      in (op\<lparr>errs := fst r\<rparr>, snd r))"

text \<open>
  The inner loop of \<^verbatim>\<open>handleErrors\<close>,
  \<^verbatim>\<open>for j := len(op.matches) - 1; j >= 0; j-- { if target == op.matches[j].Target {\<close>
  \<^verbatim>\<open>op.matches = append(op.matches[:j], op.matches[j+1:]...) } }\<close>,
  with the number of positions still to visit as its counter: at \<open>Suc j\<close> it visits
  position \<open>j\<close>.
\<close>

primrec removeLoop :: "string \<Rightarrow> Change list \<Rightarrow> nat \<Rightarrow> Change list" where
  "removeLoop target ms 0 = ms"
| "removeLoop target ms (Suc j) =
     removeLoop target
       (if target = Target (ms ! j) then take j ms @ drop (Suc j) ms else ms) j"

text \<open>The outer loop, \<^verbatim>\<open>for _, v := range op.errors { target := v.entry.Target; ... }\<close>\<close>

definition removeErrors :: "renameError list \<Rightarrow> Change list \<Rightarrow> Change list" where
  "removeErrors es ms =
     foldl (\<lambda>ms v. removeLoop (Target (entry v)) ms (length ms)) ms es"

text \<open>
  \<^verbatim>\<open>func (op *Operation) handleErrors() error\<close>: the error entries are removed from
  the matches, the table is printed, and when a match is left the journal is written to
  the file named after the current time. Every error that \<^verbatim>\<open>rename\<close> stores is one of
  package \<^verbatim>\<open>os\<close>, whose text has the form "op path: cause", so the slice at the first
  colon in \<^verbatim>\<open>reportErrors\<close> is in range.
\<close>

definition handleErrors ::
  "('fs, 'b) env \<Rightarrow> Operation \<Rightarrow> 'fs \<Rightarrow> error option \<times> Operation \<times> 'fs \<times> printed list" where
  "handleErrors env op fs =
     (let op1 = op\<lparr>matches := removeErrors (errs op) (matches op)\<rparr>;
          out = [ReportErrors (matches op1) (errs op1)];
          file = recoveryFile (time_Now env);
          w = (if length (matches op1) > 0 then writeToFile env op1 file fs else (None, fs))
      in (if fst w = None \<and> length (matches op1) > 0 then Some (errSomeNotRenamed file)
          else if fst w \<noteq> None \<and> length (matches op1) > 0 then Some errNotRenamed
          else Some errOperationFailed,
          op1, snd w, out))"

text \<open>
  \<^verbatim>\<open>func (op *Operation) apply() error\<close>. The result is the returned error
  (\<open>None\<close> for nil), the operation as the call leaves it, the filesystem and what was
  printed.
\<close>

definition apply_op ::
  "('fs, 'b) env \<Rightarrow> Operation \<Rightarrow> 'fs \<Rightarrow> error option \<times> Operation \<times> 'fs \<times> printed list" where
  "apply_op env op fs =
     (if length (matches op) = 0
      then (None, op, fs, if \<not> quiet op then [PrintNoMatches] else [])
      else
        (let v = validate env fs op;
             op1 = op\<lparr>matches := fst v, conflicts := snd v\<rparr>
         in if dom (conflicts op1) \<noteq> {} \<and> \<not> fixConflicts op1
            then (Some errConflictDetected, op1, fs,
                  if \<not> quiet op1 then [ReportConflicts] else [])
            else if exec op1 then
              (let op2 = (if includeDir op1 \<or> undoFile op1 \<noteq> [] then sortMatches op1
                          else op1);
                   r = rename env op2 fs
               in if length (errs (fst r)) > 0 then handleErrors env (fst r) (snd r)
                  else if outputFile (fst r) \<noteq> []
                  then (let w = writeToFile env (fst r) (outputFile (fst r)) (snd r)
                        in (fst w, fst r, snd w, []))
                  else (None, fst r, snd r, []))
            else if quiet op1 then (None, op1, fs, [])
            else (None, op1, fs, [PrintChanges (matches op1), PrintExecHint])))"

text \<open>
  The body of the loop of \<^verbatim>\<open>undo\<close>:
  \<^verbatim>\<open>ch := v; ch.Source = v.Target; ch.Target = v.Source; op.matches[i] = ch\<close>
\<close>

definition swapChange :: "Change \<Rightarrow> Change" where
  "swapChange v = v\<lparr>Source := Target v, Target := Source v\<rparr>"

text \<open>
  \<^verbatim>\<open>func (op *Operation) undo() error\<close>: the journal is read and decoded, every entry
  is swapped, the matches are sorted with \<^verbatim>\<open>sortBy\<close> when not executing and a sort is
  set, and \<^verbatim>\<open>apply\<close> does the rest.
\<close>

definition undo ::
  "('fs, 'b) env \<Rightarrow> Operation \<Rightarrow> 'fs \<Rightarrow> error option \<times> Operation \<times> 'fs \<times> printed list" where
  "undo env op fs =
     (case os_ReadFile env fs (undoFile op) of
        Inl e \<Rightarrow> (Some e, op, fs, [])
      | Inr file \<Rightarrow>
          (case json_Unmarshal env file of
             Inl e \<Rightarrow> (Some e, op, fs, [])
           | Inr mf \<Rightarrow>
               (let op1 = op\<lparr>matches := map swapChange (Operations mf)\<rparr>
                in if \<not> exec op1 \<and> sortName op1 \<noteq> []
                   then (case sortBy env fs op1 of
                           (Some e, ms) \<Rightarrow> (Some e, op1\<lparr>matches := ms\<rparr>, fs, [])
                         | (None, ms) \<Rightarrow> apply_op env (op1\<lparr>matches := ms\<rparr>) fs)
                   else apply_op env op1 fs)))"

section \<open>A small filesystem\<close>

text \<open>
  An instance of the environment for running the operations on concrete batches: a
  filesystem is a map from paths to file contents, and a file holds bytes or a journal
  document. Directories are not recorded, so \<^verbatim>\<open>os.MkdirAll\<close> changes nothing.
  \<^verbatim>\<open>os.Rename\<close> fails when the old path does not exist and replaces the new path
  otherwise, as on POSIX systems; renaming a path to itself changes nothing.
  \<open>joinPath\<close> is \<^verbatim>\<open>filepath.Join\<close> on two clean, non-empty elements other than
  \<^verbatim>\<open>.\<close>, and \<open>dirPath\<close> is \<^verbatim>\<open>filepath.Dir\<close> on a clean relative path.
\<close>

datatype content = Bytes string | Doc mapFile

type_synonym flatfs = "string \<rightharpoonup> content"

definition joinPath :: "string \<Rightarrow> string \<Rightarrow> string" where
  "joinPath d n = d @ ''/'' @ n"

definition dirPath :: "string \<Rightarrow> string" where
  "dirPath p =
     (if CHR ''/'' \<in> set p then rev (tl (dropWhile (\<lambda>c. c \<noteq> CHR ''/'') (rev p))) else ''.'')"

definition flatRename :: "flatfs \<Rightarrow> string \<Rightarrow> string \<Rightarrow> error option \<times> flatfs" where
  "flatRename fs old new =
     (case fs old of
        None \<Rightarrow> (Some (LinkError ''rename'' old new ''no such file or directory''), fs)
      | Some c \<Rightarrow> (None, (fs(old := None))(new \<mapsto> c)))"

definition flatReadFile :: "flatfs \<Rightarrow> string \<Rightarrow> error + content" where
  "flatReadFile fs p =
     (case fs p of
        None \<Rightarrow> Inl (PathError ''open'' p ''no such file or directory'')
      | Some c \<Rightarrow> Inr c)"

definition flatUnmarshal :: "content \<Rightarrow> error + mapFile" where
  "flatUnmarshal c =
     (case c of Doc mf \<Rightarrow> Inr mf | Bytes s \<Rightarrow> Inl (OtherError ''invalid character''))"

text \<open>
  Modelled from the spec: the conflict validator \<^verbatim>\<open>op.validate()\<close> is defined outside
  \<^verbatim>\<open>operation.go\<close>. This is its detection part, after section 4.3 of the spec: a
  candidate whose target equals its source is dropped from the matches; two candidates
  with the same target path are a duplicate-target conflict; a target that exists on
  disk and is not the source of another candidate is a target-exists conflict; a target
  that is empty or a lone path separator, and a target ending in a period, are
  conflicts of their kinds. A kind is a key
  of the map only when it has a finding. The auto-fix of the spec is left out: this
  validator never rewrites a target.
\<close>

definition putConflict ::
  "conflict \<Rightarrow> Change list \<Rightarrow> (conflict \<rightharpoonup> Conflict list) \<Rightarrow> (conflict \<rightharpoonup> Conflict list)" where
  "putConflict k cs m = (if cs = [] then m else m(k \<mapsto> [cs]))"

definition detectConflicts ::
  "flatfs \<Rightarrow> Operation \<Rightarrow> Change list \<times> (conflict \<rightharpoonup> Conflict list)" where
  "detectConflicts fs op =
     (let ms = filter (\<lambda>c. Target c \<noteq> Source c) (matches op);
          tpath = (\<lambda>c. joinPath (BaseDir c) (Target c));
          spath = (\<lambda>c. joinPath (BaseDir c) (Source c));
          dups = filter (\<lambda>c. 1 < length (filter (\<lambda>d. tpath d = tpath c) ms)) ms;
          exist = filter (\<lambda>c. fs (tpath c) \<noteq> None \<and> tpath c \<notin> set (map spath ms)) ms;
          empties = filter (\<lambda>c. Target c = [] \<or> Target c = ''/'') ms;
          periods = filter (\<lambda>c. Target c \<noteq> [] \<and> last (Target c) = CHR ''.'') ms
      in (ms,
          putConflict DuplicateTarget dups
            (putConflict TargetExists exist
              (putConflict EmptyResult empties
                (putConflict TrailingPeriod periods Map.empty)))))"

text \<open>A clock reading: 5 March 2021, 14:07:09 UTC.\<close>

definition clock :: gotime where
  "clock = \<lparr>year = 2021, month = 3, day = 5, hour = 14, minute = 7, second = 9,
            zoneOffset = 0\<rparr>"

definition flatEnv :: "(flatfs, content) env" where
  "flatEnv =
     \<lparr>validate = detectConflicts,
      sortBy = (\<lambda>fs op. (None, matches op)),
      filepath_Join = joinPath,
      filepath_Dir = dirPath,
      GOOS = ''linux'',
      os_MkdirAll = (\<lambda>fs p. (None, fs)),
      os_Rename = flatRename,
      os_Create = (\<lambda>fs p. (None, fs(p \<mapsto> Bytes []))),
      file_Write = (\<lambda>fs p b. (None, fs(p \<mapsto> b))),
      file_Close = (\<lambda>fs p. (None, fs)),
      os_ReadFile = flatReadFile,
      json_MarshalIndent = (\<lambda>mf. Inr (Doc mf)),
      json_Unmarshal = flatUnmarshal,
      time_Now = clock\<rparr>"

text \<open>
  An operation with every option off and no candidates, as \<^verbatim>\<open>&Operation{}\<close> gives it,
  and a candidate for a file.
\<close>

definition op0 :: Operation where
  "op0 =
     \<lparr>paths = [], matches = [], conflicts = Map.empty, findString = [], replacement = [],
      startNumber = 0, exec = False, fixConflicts = False, includeHidden = False,
      includeDir = False, onlyDir = False, ignoreCase = False, ignoreExt = False,
      searchRegex = None, directories = [], recursive = False, undoFile = [],
      outputFile = [], workingDir = [], stringMode = False, excludeFilter = [],
      maxDepth = 0, sortName = [], reverseSort = False, quiet = False, errs = []\<rparr>"

definition fileChange :: "string \<Rightarrow> string \<Rightarrow> string \<Rightarrow> Change" where
  "fileChange d s t = \<lparr>BaseDir = d, Source = s, Target = t, IsDir = False\<rparr>"

text \<open>
  Running \<^verbatim>\<open>apply\<close> \<open>n\<close> times on the same operation, each run on the filesystem the
  run before left: the list of the results.
\<close>

fun repeatApply ::
  "('fs, 'b) env \<Rightarrow> Operation \<Rightarrow> 'fs \<Rightarrow> nat
   \<Rightarrow> (error option \<times> Operation \<times> 'fs \<times> printed list) list" where
  "repeatApply env op fs 0 = []"
| "repeatApply env op fs (Suc n) =
     apply_op env op fs # repeatApply env op (fst (snd (snd (apply_op env op fs)))) n"

text \<open>
  Two files of directory \<^verbatim>\<open>a\<close>, and a batch that gives both the name \<^verbatim>\<open>z\<close>.
\<close>

definition fsXY :: flatfs where
  "fsXY = [''a/x'' \<mapsto> Bytes ''1'', ''a/y'' \<mapsto> Bytes ''2'']"

definition opDup :: Operation where
  "opDup = op0\<lparr>matches := [fileChange ''a'' ''x'' ''z'', fileChange ''a'' ''y'' ''z''],
              exec := True\<rparr>"

text \<open>A batch in preview mode that renames \<^verbatim>\<open>a/x\<close> to \<^verbatim>\<open>a/z\<close>.\<close>

definition opPreview :: Operation where
  "opPreview = op0\<lparr>matches := [fileChange ''a'' ''x'' ''z'']\<rparr>"

text \<open>
  The filesystem at the time the loop of \<^verbatim>\<open>rename\<close> reaches position \<open>i\<close> of the
  matches \<open>ms\<close>, when it started on \<open>fs\<close>.
\<close>

definition fsBefore :: "('fs, 'b) env \<Rightarrow> Change list \<Rightarrow> 'fs \<Rightarrow> nat \<Rightarrow> 'fs" where
  "fsBefore env ms fs i = snd (foldl (renameStep env) ([], fs) (take i ms))"

text \<open>
  What the loop records at position \<open>i\<close>: the error of the body on the filesystem it
  finds there, paired with the candidate at that position, or nothing when the body
  succeeds.
\<close>

definition failureAt :: "('fs, 'b) env \<Rightarrow> Change list \<Rightarrow> 'fs \<Rightarrow> nat \<Rightarrow> renameError list" where
  "failureAt env ms fs i =
     (case fst (renameOne env (ms ! i) (fsBefore env ms fs i)) of
        None \<Rightarrow> []
      | Some e \<Rightarrow> [\<lparr>entry = ms ! i, err = e\<rparr>])"

text \<open>
  Directory \<^verbatim>\<open>b\<close> holds the files \<^verbatim>\<open>f\<close> and \<^verbatim>\<open>h\<close>; directory \<^verbatim>\<open>a\<close> has lost
  its file \<^verbatim>\<open>f\<close> since it was listed. The batch renames \<^verbatim>\<open>f\<close> to \<^verbatim>\<open>g\<close> in both
  directories and \<^verbatim>\<open>h\<close> to \<^verbatim>\<open>k\<close> in \<^verbatim>\<open>b\<close>.
\<close>

definition fsB :: flatfs where
  "fsB = [''b/f'' \<mapsto> Bytes ''1'', ''b/h'' \<mapsto> Bytes ''2'']"

definition opPartial :: Operation where
  "opPartial =
     op0\<lparr>matches := [fileChange ''a'' ''f'' ''g'', fileChange ''b'' ''f'' ''g'',
                      fileChange ''b'' ''h'' ''k''],
         exec := True\<rparr>"

text \<open>
  A batch with directories included: the file \<^verbatim>\<open>x.txt\<close> of directory \<^verbatim>\<open>a\<close>, then
  the directory \<^verbatim>\<open>x_old\<close> of directory \<^verbatim>\<open>a/bc\<close>.
\<close>

definition opSort :: Operation where
  "opSort =
     op0\<lparr>matches := [fileChange ''a'' ''x.txt'' ''y.txt'',
                      \<lparr>BaseDir = ''a/bc'', Source = ''x_old'', Target = ''y_old'', IsDir = True\<rparr>],
         includeDir := True, exec := True\<rparr>"

text \<open>
  The two paths of a candidate, as \<^verbatim>\<open>rename\<close> joins them in the small filesystem.
\<close>

definition sourcePath :: "Change \<Rightarrow> string" where
  "sourcePath c = joinPath (BaseDir c) (Source c)"

definition targetPath :: "Change \<Rightarrow> string" where
  "targetPath c = joinPath (BaseDir c) (Target c)"

text \<open>
  An undo run in execute mode on the journal \<^verbatim>\<open>j.json\<close>, and three batches that write
  that journal: one that renames \<^verbatim>\<open>a/x\<close> and \<^verbatim>\<open>a/y\<close> to fresh names, one that
  renames \<^verbatim>\<open>a/x\<close> alone, and a chain that renames \<^verbatim>\<open>a/x\<close> to \<^verbatim>\<open>a/y\<close> and then
  \<^verbatim>\<open>a/z\<close> to the name \<^verbatim>\<open>a/x\<close> just freed.
\<close>

definition opUndo :: Operation where
  "opUndo = op0\<lparr>undoFile := ''j.json'', exec := True\<rparr>"

definition opRound :: Operation where
  "opRound =
     op0\<lparr>matches := [fileChange ''a'' ''x'' ''p'', fileChange ''a'' ''y'' ''q''],
         exec := True, outputFile := ''j.json''\<rparr>"

definition opChain :: Operation where
  "opChain =
     op0\<lparr>matches := [fileChange ''a'' ''x'' ''y'', fileChange ''a'' ''z'' ''x''],
         exec := True, outputFile := ''j.json''\<rparr>"

definition fsXZ :: flatfs where
  "fsXZ = [''a/x'' \<mapsto> Bytes ''X'', ''a/z'' \<mapsto> Bytes ''Z'']"




text \<open>
  The calls the executor makes for one candidate, on the operating system alone:
  whether the directories of the target are created first (the target contains a
  slash, or a backslash on Windows), the call of \<^verbatim>\<open>os.MkdirAll\<close> and the call of
  \<^verbatim>\<open>os.Rename\<close>, each from a given filesystem. \<open>bodyError\<close> is the failure of the
  candidate as section 4.5 of the spec has it: the error of the directory creation,
  or else the error of the rename on the filesystem that the directory creation left.
\<close>

definition wantsMkdir :: "('fs, 'b) env \<Rightarrow> Change \<Rightarrow> bool" where
  "wantsMkdir env c =
     (CHR ''/'' \<in> set (Target c) \<or> (CHR 0x5C \<in> set (Target c) \<and> GOOS env = ''windows''))"

definition mkdirCall :: "('fs, 'b) env \<Rightarrow> Change \<Rightarrow> 'fs \<Rightarrow> error option \<times> 'fs" where
  "mkdirCall env c fs =
     os_MkdirAll env fs (filepath_Join env (BaseDir c) (filepath_Dir env (Target c)))"

definition renameCall :: "('fs, 'b) env \<Rightarrow> Change \<Rightarrow> 'fs \<Rightarrow> error option \<times> 'fs" where
  "renameCall env c fs =
     os_Rename env fs (filepath_Join env (BaseDir c) (Source c))
       (filepath_Join env (BaseDir c) (Target c))"

definition bodyError :: "('fs, 'b) env \<Rightarrow> Change \<Rightarrow> 'fs \<Rightarrow> error option" where
  "bodyError env c fs =
     (if wantsMkdir env c
      then (case fst (mkdirCall env c fs) of
              Some e \<Rightarrow> Some e
            | None \<Rightarrow> fst (renameCall env c (snd (mkdirCall env c fs))))
      else fst (renameCall env c fs))"

text \<open>
  The small filesystem with a stricter \<^verbatim>\<open>os.MkdirAll\<close>: a path that is a file cannot
  become a directory. In \<open>fsDirs\<close> the name \<^verbatim>\<open>a/sub\<close> is a file. The batch \<open>opDirs\<close>
  moves \<^verbatim>\<open>a/f\<close> below \<^verbatim>\<open>a/sub\<close>, moves \<^verbatim>\<open>a/h\<close> below the new directory \<^verbatim>\<open>a/d\<close>,
  and renames \<^verbatim>\<open>a/gone\<close>, which does not exist.
\<close>

definition flatMkdirAll :: "flatfs \<Rightarrow> string \<Rightarrow> error option \<times> flatfs" where
  "flatMkdirAll fs p =
     (if fs p \<noteq> None then (Some (PathError ''mkdir'' p ''not a directory''), fs)
      else (None, fs))"

definition strictEnv :: "(flatfs, content) env" where
  "strictEnv = flatEnv\<lparr>os_MkdirAll := flatMkdirAll\<rparr>"

definition fsDirs :: flatfs where
  "fsDirs = [''a/sub'' \<mapsto> Bytes ''s'', ''a/f'' \<mapsto> Bytes ''1'', ''a/h'' \<mapsto> Bytes ''2'']"

definition opDirs :: Operation where
  "opDirs =
     op0\<lparr>matches := [fileChange ''a'' ''f'' ''sub/g'', fileChange ''a'' ''h'' ''d/k'',
                      fileChange ''a'' ''gone'' ''q''],
         exec := True\<rparr>"

section \<open>The small filesystem, evaluated\<close>

lemma flatEnv_sel:
  "validate flatEnv = detectConflicts"
  "sortBy flatEnv = (\<lambda>fs op. (None, matches op))"
  "filepath_Join flatEnv = joinPath"
  "filepath_Dir flatEnv = dirPath"
  "GOOS flatEnv = ''linux''"
  "os_MkdirAll flatEnv = (\<lambda>fs p. (None, fs))"
  "os_Rename flatEnv = flatRename"
  "os_Create flatEnv = (\<lambda>fs p. (None, fs(p \<mapsto> Bytes [])))"
  "file_Write flatEnv = (\<lambda>fs p b. (None, fs(p \<mapsto> b)))"
  "file_Close flatEnv = (\<lambda>fs p. (None, fs))"
  "os_ReadFile flatEnv = flatReadFile"
  "json_MarshalIndent flatEnv = (\<lambda>mf. Inr (Doc mf))"
  "json_Unmarshal flatEnv = flatUnmarshal"
  "time_Now flatEnv = clock"
  by (simp_all add: flatEnv_def)

lemma detect_opDup:
  "detectConflicts fsXY opDup = (matches opDup, [DuplicateTarget \<mapsto> [matches opDup]])"
  by (simp add: detectConflicts_def opDup_def op0_def fileChange_def joinPath_def fsXY_def
      putConflict_def Let_def)

lemma detect_opPreview:
  "detectConflicts fsXY opPreview = ([fileChange ''a'' ''x'' ''z''], Map.empty)"
  by (simp add: detectConflicts_def opPreview_def fileChange_def joinPath_def fsXY_def
      putConflict_def Let_def)

lemma apply_opPreview:
  "apply_op flatEnv opPreview fsXY =
     (None, opPreview\<lparr>conflicts := Map.empty\<rparr>, fsXY,
      [PrintChanges [fileChange ''a'' ''x'' ''z''], PrintExecHint])"
proof -
  have m: "matches opPreview = [fileChange ''a'' ''x'' ''z'']" "\<not> exec opPreview"
    "\<not> quiet opPreview"
    by (simp_all add: opPreview_def op0_def)
  show ?thesis
    unfolding apply_op_def Let_def flatEnv_sel detect_opPreview
    using m by (simp add: opPreview_def)
qed

section \<open>An empty batch\<close>

text \<open>
  Claim C9. When the match set is empty, \<^verbatim>\<open>apply\<close> returns nil and leaves the
  operation and the filesystem as they are; it only prints "Failed to match any files"
  unless quiet. The result is the same in every environment: no call of the operating
  system and no validator is consulted.
\<close>

theorem apply_empty_noop:
  assumes "matches op = []"
  shows "apply_op env op fs = (None, op, fs, if quiet op then [] else [PrintNoMatches])"
  using assms by (simp add: apply_op_def)

theorem apply_empty_noop_witness:
  "matches op0 = []
   \<and> apply_op flatEnv op0 fsXY = (None, op0, fsXY, [PrintNoMatches])"
proof -
  have h: "matches op0 = []" by (simp add: op0_def)
  have q: "\<not> quiet op0" by (simp add: op0_def)
  show ?thesis
    using h q apply_empty_noop [OF h, of flatEnv fsXY] by simp
qed

section \<open>Blocking conflicts\<close>

text \<open>
  Claim C1. When the validator reports at least one conflict on a non-empty batch and
  auto-fix is off, \<^verbatim>\<open>apply\<close> returns \<^verbatim>\<open>errConflictDetected\<close> and the filesystem is
  the one it started from: \<^verbatim>\<open>rename\<close>, \<^verbatim>\<open>os.MkdirAll\<close> and \<^verbatim>\<open>writeToFile\<close> are not
  reached. Only the conflict report is printed, unless quiet.
\<close>

theorem apply_conflict_blocks:
  assumes "matches op \<noteq> []"
    and "dom (snd (validate env fs op)) \<noteq> {}"
    and "\<not> fixConflicts op"
  shows "apply_op env op fs =
           (Some errConflictDetected,
            op\<lparr>matches := fst (validate env fs op), conflicts := snd (validate env fs op)\<rparr>,
            fs,
            if quiet op then [] else [ReportConflicts])"
  using assms by (simp add: apply_op_def Let_def)

theorem apply_conflict_blocks_witness:
  "matches opDup \<noteq> [] \<and> dom (snd (validate flatEnv fsXY opDup)) \<noteq> {}
   \<and> \<not> fixConflicts opDup
   \<and> fst (apply_op flatEnv opDup fsXY) = Some errConflictDetected
   \<and> fst (snd (snd (apply_op flatEnv opDup fsXY))) = fsXY"
proof -
  have h1: "matches opDup \<noteq> []" by (simp add: opDup_def)
  have h2: "dom (snd (validate flatEnv fsXY opDup)) \<noteq> {}"
    by (simp add: flatEnv_sel detect_opDup)
  have h3: "\<not> fixConflicts opDup" by (simp add: opDup_def op0_def)
  show ?thesis
    using h1 h2 h3 apply_conflict_blocks [OF h1 h2 h3] by simp
qed

section \<open>Preview mode\<close>

text \<open>
  Claim C7. With the execute flag off, \<^verbatim>\<open>apply\<close> returns the filesystem it was given,
  and any number of runs over the same candidate set, each on the filesystem the run
  before left, give one and the same result (and so the same proposed targets).
\<close>

theorem apply_preview_pure:
  assumes "\<not> exec op"
  shows "fst (snd (snd (apply_op env op fs))) = fs
         \<and> repeatApply env op fs n = replicate n (apply_op env op fs)"
proof -
  have keep: "fst (snd (snd (apply_op env op fs))) = fs" for fs
    using assms by (simp add: apply_op_def Let_def)
  have "repeatApply env op fs n = replicate n (apply_op env op fs)"
    by (induction n) (simp_all add: keep)
  with keep show ?thesis by simp
qed

theorem apply_preview_pure_witness:
  "\<not> exec opPreview
   \<and> fst (snd (snd (apply_op flatEnv opPreview fsXY))) = fsXY
   \<and> repeatApply flatEnv opPreview fsXY 3 = replicate 3 (apply_op flatEnv opPreview fsXY)
   \<and> map Target (matches (fst (snd (apply_op flatEnv opPreview fsXY)))) = [''z'']"
proof -
  have h: "\<not> exec opPreview" by (simp add: opPreview_def op0_def)
  have t: "map Target (matches (fst (snd (apply_op flatEnv opPreview fsXY)))) = [''z'']"
    unfolding apply_opPreview by (simp add: opPreview_def fileChange_def)
  show ?thesis
    using h t apply_preview_pure [OF h, of flatEnv fsXY 3] by simp
qed

section \<open>The quiet flag\<close>

lemma sortLess_quiet: "sortLess (op\<lparr>quiet := q\<rparr>) = sortLess op"
  by (simp add: sortLess_def fun_eq_iff)

lemma sortMatches_quiet: "sortMatches (op\<lparr>quiet := q\<rparr>) = (sortMatches op)\<lparr>quiet := q\<rparr>"
  by (simp add: sortMatches_def sortLess_quiet)

lemma rename_quiet:
  "rename env (op\<lparr>quiet := q\<rparr>) fs
     = ((fst (rename env op fs))\<lparr>quiet := q\<rparr>, snd (rename env op fs))"
  by (simp add: rename_def Let_def)

lemma writeToFile_matches:
  "matches op = matches op' \<Longrightarrow> writeToFile env op f fs = writeToFile env op' f fs"
  by (simp add: writeToFile_def split: prod.splits option.splits)

lemma writeToFile_quiet: "writeToFile env (op\<lparr>quiet := q\<rparr>) f fs = writeToFile env op f fs"
  by (rule writeToFile_matches) simp

lemma handleErrors_quiet:
  "handleErrors env (op\<lparr>quiet := q\<rparr>) fs =
     (fst (handleErrors env op fs), (fst (snd (handleErrors env op fs)))\<lparr>quiet := q\<rparr>,
      snd (snd (handleErrors env op fs)))"
proof -
  define ms where "ms = removeErrors (errs op) (matches op)"
  have w: "writeToFile env (op\<lparr>quiet := q, matches := ms\<rparr>) f fs
           = writeToFile env (op\<lparr>matches := ms\<rparr>) f fs" for f
    by (rule writeToFile_matches) simp
  show ?thesis
    unfolding handleErrors_def Let_def
    by (simp add: w ms_def [symmetric])
qed

lemma apply_op_quiet:
  assumes "validate env fs (op\<lparr>quiet := q\<rparr>) = validate env fs op"
  shows "fst (apply_op env (op\<lparr>quiet := q\<rparr>) fs) = fst (apply_op env op fs)
         \<and> fst (snd (snd (apply_op env (op\<lparr>quiet := q\<rparr>) fs)))
             = fst (snd (snd (apply_op env op fs)))"
proof (cases "matches op = []")
  case True
  then show ?thesis by (simp add: apply_op_def)
next
  case False
  define v where "v = validate env fs op"
  define op1 where "op1 = op\<lparr>matches := fst v, conflicts := snd v\<rparr>"
  define op2 where "op2 = (if includeDir op1 \<or> undoFile op1 \<noteq> [] then sortMatches op1 else op1)"
  define r where "r = rename env op2 fs"
  have a: "apply_op env op fs =
     (if dom (conflicts op1) \<noteq> {} \<and> \<not> fixConflicts op1
      then (Some errConflictDetected, op1, fs, if \<not> quiet op1 then [ReportConflicts] else [])
      else if exec op1 then
        (if length (errs (fst r)) > 0 then handleErrors env (fst r) (snd r)
         else if outputFile (fst r) \<noteq> []
         then (fst (writeToFile env (fst r) (outputFile (fst r)) (snd r)), fst r,
               snd (writeToFile env (fst r) (outputFile (fst r)) (snd r)), [])
         else (None, fst r, snd r, []))
      else if quiet op1 then (None, op1, fs, [])
      else (None, op1, fs, [PrintChanges (matches op1), PrintExecHint]))"
    using False unfolding apply_op_def Let_def r_def op2_def op1_def v_def by simp
  have op1q: "op\<lparr>quiet := q, matches := fst v, conflicts := snd v\<rparr> = op1\<lparr>quiet := q\<rparr>"
    by (simp add: op1_def)
  have op2q: "(if includeDir (op1\<lparr>quiet := q\<rparr>) \<or> undoFile (op1\<lparr>quiet := q\<rparr>) \<noteq> []
               then sortMatches (op1\<lparr>quiet := q\<rparr>) else op1\<lparr>quiet := q\<rparr>) = op2\<lparr>quiet := q\<rparr>"
    by (simp add: op2_def sortMatches_quiet)
  have rq: "rename env (op2\<lparr>quiet := q\<rparr>) fs = ((fst r)\<lparr>quiet := q\<rparr>, snd r)"
    by (simp add: r_def rename_quiet)
  have b: "apply_op env (op\<lparr>quiet := q\<rparr>) fs =
     (if dom (conflicts op1) \<noteq> {} \<and> \<not> fixConflicts op1
      then (Some errConflictDetected, op1\<lparr>quiet := q\<rparr>, fs, if \<not> q then [ReportConflicts] else [])
      else if exec op1 then
        (if length (errs (fst r)) > 0 then handleErrors env ((fst r)\<lparr>quiet := q\<rparr>) (snd r)
         else if outputFile (fst r) \<noteq> []
         then (fst (writeToFile env (fst r) (outputFile (fst r)) (snd r)), (fst r)\<lparr>quiet := q\<rparr>,
               snd (writeToFile env (fst r) (outputFile (fst r)) (snd r)), [])
         else (None, (fst r)\<lparr>quiet := q\<rparr>, snd r, []))
      else if q then (None, op1\<lparr>quiet := q\<rparr>, fs, [])
      else (None, op1\<lparr>quiet := q\<rparr>, fs, [PrintChanges (matches op1), PrintExecHint]))"
    using False unfolding apply_op_def Let_def assms v_def [symmetric]
    unfolding op1q op2q rq
    by (simp add: writeToFile_quiet)
  show ?thesis
    unfolding a b by (simp add: handleErrors_quiet)
qed

text \<open>
  Claim C10. Two runs of \<^verbatim>\<open>apply\<close> that differ only in the quiet flag return the
  same error and leave the same filesystem, provided the validator, which lives outside
  this file, gives the same findings for both.
\<close>

theorem apply_error_ignores_quiet:
  assumes "validate env fs (op\<lparr>quiet := q1\<rparr>) = validate env fs (op\<lparr>quiet := q2\<rparr>)"
  shows "fst (apply_op env (op\<lparr>quiet := q1\<rparr>) fs) = fst (apply_op env (op\<lparr>quiet := q2\<rparr>) fs)
         \<and> fst (snd (snd (apply_op env (op\<lparr>quiet := q1\<rparr>) fs)))
             = fst (snd (snd (apply_op env (op\<lparr>quiet := q2\<rparr>) fs)))"
proof -
  have "validate env fs ((op\<lparr>quiet := q1\<rparr>)\<lparr>quiet := q2\<rparr>) = validate env fs (op\<lparr>quiet := q1\<rparr>)"
    using assms by simp
  from apply_op_quiet [OF this] show ?thesis by simp
qed

theorem apply_error_ignores_quiet_witness:
  "validate flatEnv fsXY (opDup\<lparr>quiet := True\<rparr>) = validate flatEnv fsXY (opDup\<lparr>quiet := False\<rparr>)
   \<and> fst (apply_op flatEnv (opDup\<lparr>quiet := True\<rparr>) fsXY)
       = fst (apply_op flatEnv (opDup\<lparr>quiet := False\<rparr>) fsXY)"
proof -
  have h: "validate flatEnv fsXY (opDup\<lparr>quiet := True\<rparr>)
           = validate flatEnv fsXY (opDup\<lparr>quiet := False\<rparr>)"
    by (simp add: flatEnv_sel detectConflicts_def)
  show ?thesis
    using h apply_error_ignores_quiet [OF h] by simp
qed

section \<open>The loop of \<^verbatim>\<open>rename\<close>\<close>

lemma recoveryFile_clock: "recoveryFile clock = ''.f2_2021-03-5T14-07-09PM.json''"
  by (simp add: recoveryFile_def formatRecovery_def appendInt_def clock_def digits.simps)

lemma formatRFC3339_clock: "formatRFC3339 clock = ''2021-03-05T14:07:09Z''"
  by (simp add: formatRFC3339_def formatZone_def appendInt_def clock_def digits.simps)

lemma renameStep_fst:
  "fst (renameStep env acc x) =
     fst acc @ (case fst (renameOne env x (snd acc)) of
                  None \<Rightarrow> [] | Some e \<Rightarrow> [\<lparr>entry = x, err = e\<rparr>])"
  by (simp add: renameStep_def split: prod.splits option.splits)

lemma renameStep_snd: "snd (renameStep env acc x) = snd (renameOne env x (snd acc))"
  by (simp add: renameStep_def split: prod.splits option.splits)

lemma fsBefore_Suc:
  assumes "i < length ms"
  shows "fsBefore env ms fs (Suc i) = snd (renameOne env (ms ! i) (fsBefore env ms fs i))"
proof -
  have "take (Suc i) ms = take i ms @ [ms ! i]"
    using assms by (simp add: take_Suc_conv_app_nth)
  then show ?thesis
    by (simp add: fsBefore_def renameStep_snd)
qed

lemma failureAt_append:
  "i < length xs \<Longrightarrow> failureAt env (xs @ [x]) fs i = failureAt env xs fs i"
  by (simp add: failureAt_def fsBefore_def nth_append split: option.splits)

lemma failureAt_last:
  "failureAt env (xs @ [x]) fs (length xs) =
     (case fst (renameOne env x (snd (foldl (renameStep env) ([], fs) xs))) of
        None \<Rightarrow> [] | Some e \<Rightarrow> [\<lparr>entry = x, err = e\<rparr>])"
  by (simp add: failureAt_def fsBefore_def split: option.splits)

lemma rename_errs_concat:
  "fst (foldl (renameStep env) ([], fs) ms) = concat (map (failureAt env ms fs) [0..<length ms])"
proof (induction ms rule: rev_induct)
  case Nil
  show ?case by simp
next
  case (snoc x xs)
  have eq: "map (failureAt env (xs @ [x]) fs) [0..<length xs]
            = map (failureAt env xs fs) [0..<length xs]"
    by (rule map_cong) (simp_all add: failureAt_append)
  show ?case
    by (simp add: renameStep_fst failureAt_last snoc.IH eq)
qed

lemma renameOne_calls:
  "renameOne env c fs =
     (if wantsMkdir env c
      then (if fst (mkdirCall env c fs) = None
            then renameCall env c (snd (mkdirCall env c fs))
            else mkdirCall env c fs)
      else renameCall env c fs)"
  by (auto simp add: renameOne_def wantsMkdir_def mkdirCall_def renameCall_def windows_def
      Let_def split: prod.splits option.splits)

lemma renameOne_bodyError: "fst (renameOne env c fs) = bodyError env c fs"
  by (auto simp add: renameOne_calls bodyError_def split: option.splits)

lemma failureAt_bodyError:
  "failureAt env ms fs i =
     (case bodyError env (ms ! i) (fsBefore env ms fs i) of
        None \<Rightarrow> [] | Some e \<Rightarrow> [\<lparr>entry = ms ! i, err = e\<rparr>])"
  by (simp add: failureAt_def renameOne_bodyError)

lemma failure_recorded:
  assumes "i < length ms" and "bodyError env (ms ! i) (fsBefore env ms fs i) = Some e"
  shows "\<lparr>entry = ms ! i, err = e\<rparr> \<in> set (fst (foldl (renameStep env) ([], fs) ms))"
proof -
  have "\<lparr>entry = ms ! i, err = e\<rparr> \<in> set (failureAt env ms fs i)"
    using assms(2) by (simp add: failureAt_bodyError)
  moreover have "i \<in> set [0..<length ms]" using assms(1) by simp
  ultimately show ?thesis
    unfolding rename_errs_concat by (auto simp del: upt_Suc)
qed

text \<open>
  Claim C4. The loop of \<^verbatim>\<open>rename\<close> starts on the given filesystem and handles every
  candidate, in order, on the filesystem the candidates before it left, whether they
  failed or not. For the candidate at position \<open>i\<close>:
  \<^item> when the target asks for directories, \<^verbatim>\<open>os.MkdirAll\<close> is called; if it fails,
    its error is recorded with this candidate and \<^verbatim>\<open>os.Rename\<close> is skipped for this
    candidate only;
  \<^item> otherwise \<^verbatim>\<open>os.Rename\<close> is called on the joined paths, on the filesystem that
    \<^verbatim>\<open>os.MkdirAll\<close> left if it was called; if it fails, its error is recorded with
    this candidate.
  The recorded errors are exactly these failures, in the order of the candidates, and
  the loop ends on the filesystem left by the last candidate.
\<close>

theorem rename_attempts_every_candidate:
  "fsBefore env (matches op) fs 0 = fs
   \<and> (\<forall>i < length (matches op).
        let c = matches op ! i;
            f = fsBefore env (matches op) fs i;
            f' = fsBefore env (matches op) fs (Suc i);
            mk = mkdirCall env c f;
            recorded = (\<lambda>e. \<lparr>entry = c, err = e\<rparr> \<in> set (errs (fst (rename env op fs))))
        in (wantsMkdir env c \<longrightarrow> (\<forall>e. fst mk = Some e \<longrightarrow> recorded e \<and> f' = snd mk))
         \<and> (wantsMkdir env c \<and> fst mk = None \<longrightarrow>
               f' = snd (renameCall env c (snd mk))
               \<and> (\<forall>e. fst (renameCall env c (snd mk)) = Some e \<longrightarrow> recorded e))
         \<and> (\<not> wantsMkdir env c \<longrightarrow>
               f' = snd (renameCall env c f)
               \<and> (\<forall>e. fst (renameCall env c f) = Some e \<longrightarrow> recorded e)))
   \<and> errs (fst (rename env op fs)) =
       concat (map (\<lambda>i. case bodyError env (matches op ! i)
                                (fsBefore env (matches op) fs i) of
                          None \<Rightarrow> []
                        | Some e \<Rightarrow> [\<lparr>entry = matches op ! i, err = e\<rparr>])
                   [0..<length (matches op)])
   \<and> snd (rename env op fs) = fsBefore env (matches op) fs (length (matches op))"
proof -
  define ms where "ms = matches op"
  have E: "errs (fst (rename env op fs)) = fst (foldl (renameStep env) ([], fs) ms)"
    by (simp add: rename_def Let_def ms_def)
  have first: "fsBefore env ms fs 0 = fs" by (simp add: fsBefore_def)
  have last: "snd (rename env op fs) = fsBefore env ms fs (length ms)"
    by (simp add: rename_def Let_def ms_def fsBefore_def)
  have exact: "errs (fst (rename env op fs)) =
       concat (map (\<lambda>i. case bodyError env (ms ! i) (fsBefore env ms fs i) of
                          None \<Rightarrow> [] | Some e \<Rightarrow> [\<lparr>entry = ms ! i, err = e\<rparr>])
                   [0..<length ms])"
    unfolding E rename_errs_concat
    by (rule arg_cong [where f = concat], rule map_cong) (simp_all add: failureAt_bodyError)
  have pos: "(wantsMkdir env (ms ! i) \<longrightarrow>
           (\<forall>e. fst (mkdirCall env (ms ! i) (fsBefore env ms fs i)) = Some e
              \<longrightarrow> \<lparr>entry = ms ! i, err = e\<rparr> \<in> set (errs (fst (rename env op fs)))
                \<and> fsBefore env ms fs (Suc i) = snd (mkdirCall env (ms ! i) (fsBefore env ms fs i))))
      \<and> (wantsMkdir env (ms ! i)
           \<and> fst (mkdirCall env (ms ! i) (fsBefore env ms fs i)) = None \<longrightarrow>
           fsBefore env ms fs (Suc i)
             = snd (renameCall env (ms ! i) (snd (mkdirCall env (ms ! i) (fsBefore env ms fs i))))
           \<and> (\<forall>e. fst (renameCall env (ms ! i)
                         (snd (mkdirCall env (ms ! i) (fsBefore env ms fs i)))) = Some e
                \<longrightarrow> \<lparr>entry = ms ! i, err = e\<rparr> \<in> set (errs (fst (rename env op fs)))))
      \<and> (\<not> wantsMkdir env (ms ! i) \<longrightarrow>
           fsBefore env ms fs (Suc i) = snd (renameCall env (ms ! i) (fsBefore env ms fs i))
           \<and> (\<forall>e. fst (renameCall env (ms ! i) (fsBefore env ms fs i)) = Some e
                \<longrightarrow> \<lparr>entry = ms ! i, err = e\<rparr> \<in> set (errs (fst (rename env op fs)))))"
    if i: "i < length ms" for i
  proof -
    define c where "c = ms ! i"
    define f where "f = fsBefore env ms fs i"
    have nxt: "fsBefore env ms fs (Suc i) = snd (renameOne env c f)"
      using fsBefore_Suc [OF i] by (simp add: c_def f_def)
    have rec: "bodyError env c f = Some e \<Longrightarrow>
               \<lparr>entry = c, err = e\<rparr> \<in> set (errs (fst (rename env op fs)))" for e
      unfolding E c_def f_def by (rule failure_recorded [OF i])
    show ?thesis
      unfolding c_def [symmetric] f_def [symmetric] nxt
      using rec by (auto simp add: renameOne_calls bodyError_def)
  qed
  show ?thesis
    unfolding ms_def [symmetric] Let_def using first pos exact last by blast
qed

lemma renameOne_flat:
  "CHR ''/'' \<notin> set (Target ch) \<Longrightarrow>
   renameOne flatEnv ch fs
     = flatRename fs (joinPath (BaseDir ch) (Source ch)) (joinPath (BaseDir ch) (Target ch))"
  by (simp add: renameOne_def flatEnv_sel Let_def)

lemma writeToFile_flat:
  "writeToFile flatEnv op f fs =
     (None, fs(f \<mapsto> Doc \<lparr>Date = ''2021-03-05T14:07:09Z'', Operations = matches op\<rparr>))"
  by (simp add: writeToFile_def flatEnv_sel Let_def formatRFC3339_clock)

lemma detect_opPartial: "detectConflicts fsB opPartial = (matches opPartial, Map.empty)"
  by (simp add: detectConflicts_def opPartial_def op0_def fileChange_def joinPath_def fsB_def
      putConflict_def Let_def)

lemma loop_opPartial:
  "foldl (renameStep flatEnv) ([], fsB) (matches opPartial) =
     ([\<lparr>entry = fileChange ''a'' ''f'' ''g'',
        err = LinkError ''rename'' ''a/f'' ''a/g'' ''no such file or directory''\<rparr>],
      [''b/g'' \<mapsto> Bytes ''1'', ''b/k'' \<mapsto> Bytes ''2''])"
  by (simp add: opPartial_def renameStep_def renameOne_flat fileChange_def joinPath_def
      flatRename_def fsB_def)

lemma removeErrors_opPartial:
  "removeErrors [\<lparr>entry = fileChange ''a'' ''f'' ''g'', err = e\<rparr>] (matches opPartial)
     = [fileChange ''b'' ''h'' ''k'']"
  by (simp add: removeErrors_def opPartial_def fileChange_def numeral_3_eq_3)

lemma apply_opPartial:
  "apply_op flatEnv opPartial fsB =
     (Some (errSomeNotRenamed ''.f2_2021-03-5T14-07-09PM.json''),
      opPartial\<lparr>conflicts := Map.empty,
                errs := [\<lparr>entry = fileChange ''a'' ''f'' ''g'',
                          err = LinkError ''rename'' ''a/f'' ''a/g''
                                  ''no such file or directory''\<rparr>],
                matches := [fileChange ''b'' ''h'' ''k'']\<rparr>,
      [''b/g'' \<mapsto> Bytes ''1'', ''b/k'' \<mapsto> Bytes ''2'',
       ''.f2_2021-03-5T14-07-09PM.json'' \<mapsto>
         Doc \<lparr>Date = ''2021-03-05T14:07:09Z'', Operations = [fileChange ''b'' ''h'' ''k'']\<rparr>],
      [ReportErrors [fileChange ''b'' ''h'' ''k'']
         [\<lparr>entry = fileChange ''a'' ''f'' ''g'',
           err = LinkError ''rename'' ''a/f'' ''a/g'' ''no such file or directory''\<rparr>]])"
proof -
  have m: "matches opPartial \<noteq> []" "exec opPartial" "\<not> includeDir opPartial"
    "undoFile opPartial = []" "\<not> fixConflicts opPartial"
    by (simp_all add: opPartial_def op0_def)
  have c: "opPartial\<lparr>matches := matches opPartial, conflicts := Map.empty\<rparr>
           = opPartial\<lparr>conflicts := Map.empty\<rparr>"
    by simp
  have r: "rename flatEnv (opPartial\<lparr>conflicts := Map.empty\<rparr>) fsB =
             (opPartial\<lparr>conflicts := Map.empty,
                errs := [\<lparr>entry = fileChange ''a'' ''f'' ''g'',
                          err = LinkError ''rename'' ''a/f'' ''a/g''
                                  ''no such file or directory''\<rparr>]\<rparr>,
              [''b/g'' \<mapsto> Bytes ''1'', ''b/k'' \<mapsto> Bytes ''2''])"
    by (simp add: rename_def Let_def loop_opPartial)
  show ?thesis
    unfolding apply_op_def Let_def flatEnv_sel detect_opPartial
    using m
    by (simp add: c r handleErrors_def Let_def removeErrors_opPartial writeToFile_flat
        flatEnv_sel recoveryFile_clock)
qed

lemma strictEnv_sel:
  "filepath_Join strictEnv = joinPath"
  "filepath_Dir strictEnv = dirPath"
  "GOOS strictEnv = ''linux''"
  "os_MkdirAll strictEnv = flatMkdirAll"
  "os_Rename strictEnv = flatRename"
  by (simp_all add: strictEnv_def flatEnv_def)

lemma matches_opDirs:
  "matches opDirs = [fileChange ''a'' ''f'' ''sub/g'', fileChange ''a'' ''h'' ''d/k'',
                     fileChange ''a'' ''gone'' ''q'']"
  by (simp add: opDirs_def)

lemma body0_opDirs:
  "wantsMkdir strictEnv (fileChange ''a'' ''f'' ''sub/g'')"
  "mkdirCall strictEnv (fileChange ''a'' ''f'' ''sub/g'') fsDirs
     = (Some (PathError ''mkdir'' ''a/sub'' ''not a directory''), fsDirs)"
  by (simp_all add: wantsMkdir_def mkdirCall_def strictEnv_sel flatMkdirAll_def fileChange_def
      joinPath_def dirPath_def fsDirs_def)

lemma loop_opDirs:
  "foldl (renameStep strictEnv) ([], fsDirs) (matches opDirs) =
     ([\<lparr>entry = fileChange ''a'' ''f'' ''sub/g'',
        err = PathError ''mkdir'' ''a/sub'' ''not a directory''\<rparr>,
       \<lparr>entry = fileChange ''a'' ''gone'' ''q'',
        err = LinkError ''rename'' ''a/gone'' ''a/q'' ''no such file or directory''\<rparr>],
      [''a/sub'' \<mapsto> Bytes ''s'', ''a/f'' \<mapsto> Bytes ''1'', ''a/d/k'' \<mapsto> Bytes ''2''])"
  by (simp add: matches_opDirs renameStep_def renameOne_calls body0_opDirs
      wantsMkdir_def mkdirCall_def renameCall_def strictEnv_sel flatMkdirAll_def flatRename_def
      fileChange_def joinPath_def dirPath_def fsDirs_def)

theorem rename_attempts_every_candidate_witness:
  "0 < length (matches opDirs)
   \<and> wantsMkdir strictEnv (matches opDirs ! 0)
   \<and> fst (mkdirCall strictEnv (matches opDirs ! 0) (fsBefore strictEnv (matches opDirs) fsDirs 0))
       = Some (PathError ''mkdir'' ''a/sub'' ''not a directory'')
   \<and> \<lparr>entry = matches opDirs ! 0, err = PathError ''mkdir'' ''a/sub'' ''not a directory''\<rparr>
       \<in> set (errs (fst (rename strictEnv opDirs fsDirs)))
   \<and> fsBefore strictEnv (matches opDirs) fsDirs (Suc 0) = fsDirs
   \<and> errs (fst (rename strictEnv opDirs fsDirs))
       = [\<lparr>entry = fileChange ''a'' ''f'' ''sub/g'',
           err = PathError ''mkdir'' ''a/sub'' ''not a directory''\<rparr>,
          \<lparr>entry = fileChange ''a'' ''gone'' ''q'',
           err = LinkError ''rename'' ''a/gone'' ''a/q'' ''no such file or directory''\<rparr>]
   \<and> snd (rename strictEnv opDirs fsDirs) ''a/f'' = Some (Bytes ''1'')
   \<and> snd (rename strictEnv opDirs fsDirs) ''a/h'' = None
   \<and> snd (rename strictEnv opDirs fsDirs) ''a/d/k'' = Some (Bytes ''2'')"
proof -
  have h: "0 < length (matches opDirs)" by (simp add: matches_opDirs)
  have c0: "matches opDirs ! 0 = fileChange ''a'' ''f'' ''sub/g''"
    by (simp add: matches_opDirs)
  have f0: "fsBefore strictEnv (matches opDirs) fsDirs 0 = fsDirs"
    by (simp add: fsBefore_def)
  have w: "wantsMkdir strictEnv (matches opDirs ! 0)"
    by (simp add: c0 body0_opDirs)
  have mk: "mkdirCall strictEnv (matches opDirs ! 0) (fsBefore strictEnv (matches opDirs) fsDirs 0)
            = (Some (PathError ''mkdir'' ''a/sub'' ''not a directory''), fsDirs)"
    by (simp add: c0 f0 body0_opDirs)
  have r: "rename strictEnv opDirs fsDirs =
     (opDirs\<lparr>errs := [\<lparr>entry = fileChange ''a'' ''f'' ''sub/g'',
                        err = PathError ''mkdir'' ''a/sub'' ''not a directory''\<rparr>,
                       \<lparr>entry = fileChange ''a'' ''gone'' ''q'',
                        err = LinkError ''rename'' ''a/gone'' ''a/q''
                                ''no such file or directory''\<rparr>]\<rparr>,
      [''a/sub'' \<mapsto> Bytes ''s'', ''a/f'' \<mapsto> Bytes ''1'', ''a/d/k'' \<mapsto> Bytes ''2''])"
    by (simp add: rename_def Let_def loop_opDirs)
  have mk1: "fst (mkdirCall strictEnv (matches opDirs ! 0)
                    (fsBefore strictEnv (matches opDirs) fsDirs 0))
             = Some (PathError ''mkdir'' ''a/sub'' ''not a directory'')"
    by (simp only: mk fst_conv)
  note all = rename_attempts_every_candidate [of strictEnv opDirs fsDirs, unfolded Let_def]
  note at0 = all [THEN conjunct2, THEN conjunct1, rule_format, OF h]
  note t0 = at0 [THEN conjunct1, rule_format, OF w mk1]
  have t: "\<lparr>entry = matches opDirs ! 0, err = PathError ''mkdir'' ''a/sub'' ''not a directory''\<rparr>
             \<in> set (errs (fst (rename strictEnv opDirs fsDirs)))
           \<and> fsBefore strictEnv (matches opDirs) fsDirs (Suc 0) = fsDirs"
    using t0 by (simp only: mk snd_conv)
  have e: "errs (fst (rename strictEnv opDirs fsDirs))
       = [\<lparr>entry = fileChange ''a'' ''f'' ''sub/g'',
           err = PathError ''mkdir'' ''a/sub'' ''not a directory''\<rparr>,
          \<lparr>entry = fileChange ''a'' ''gone'' ''q'',
           err = LinkError ''rename'' ''a/gone'' ''a/q'' ''no such file or directory''\<rparr>]"
    by (simp add: r)
  have s: "snd (rename strictEnv opDirs fsDirs) ''a/f'' = Some (Bytes ''1'')"
    "snd (rename strictEnv opDirs fsDirs) ''a/h'' = None"
    "snd (rename strictEnv opDirs fsDirs) ''a/d/k'' = Some (Bytes ''2'')"
    by (simp_all add: r)
  show ?thesis
    using h w mk t e s by simp
qed

section \<open>The recovery journal\<close>

lemma removeLoop_filter_take:
  "j \<le> length ms \<Longrightarrow>
   removeLoop target ms j = filter (\<lambda>m. Target m \<noteq> target) (take j ms) @ drop j ms"
proof (induction j arbitrary: ms)
  case 0
  show ?case by simp
next
  case (Suc j)
  then have j: "j < length ms" by simp
  have t: "take (Suc j) ms = take j ms @ [ms ! j]"
    using j by (simp add: take_Suc_conv_app_nth)
  have d: "drop j ms = ms ! j # drop (Suc j) ms"
    using j by (simp add: Cons_nth_drop_Suc)
  show ?case
  proof (cases "target = Target (ms ! j)")
    case True
    have "removeLoop target ms (Suc j) = removeLoop target (take j ms @ drop (Suc j) ms) j"
      using True by simp
    also have "\<dots> = filter (\<lambda>m. Target m \<noteq> target) (take j (take j ms @ drop (Suc j) ms))
                    @ drop j (take j ms @ drop (Suc j) ms)"
      using j by (intro Suc.IH) simp
    also have "\<dots> = filter (\<lambda>m. Target m \<noteq> target) (take j ms) @ drop (Suc j) ms"
      using j by simp
    finally show ?thesis using True by (simp add: t)
  next
    case False
    have "removeLoop target ms (Suc j) = removeLoop target ms j"
      using False by simp
    also have "\<dots> = filter (\<lambda>m. Target m \<noteq> target) (take j ms) @ drop j ms"
      using j by (intro Suc.IH) simp
    finally show ?thesis using False by (simp add: t d)
  qed
qed

lemma removeLoop_filter:
  "removeLoop target ms (length ms) = filter (\<lambda>m. Target m \<noteq> target) ms"
  by (simp add: removeLoop_filter_take)

lemma removeErrors_filter:
  "removeErrors es ms = filter (\<lambda>m. Target m \<notin> set (map (\<lambda>v. Target (entry v)) es)) ms"
proof (induction es arbitrary: ms)
  case Nil
  show ?case by (simp add: removeErrors_def)
next
  case (Cons v es)
  have "removeErrors (v # es) ms = removeErrors es (filter (\<lambda>m. Target m \<noteq> Target (entry v)) ms)"
    by (simp add: removeErrors_def removeLoop_filter)
  then show ?case
    by (simp add: Cons.IH)
qed

text \<open>
  Claim C5, on the batch \<open>opPartial\<close> and the filesystem \<open>fsB\<close>: only the rename of
  \<^verbatim>\<open>a/f\<close> fails; \<^verbatim>\<open>b/f\<close> is renamed to \<^verbatim>\<open>b/g\<close> and \<^verbatim>\<open>b/h\<close> to \<^verbatim>\<open>b/k\<close>. The
  journal written to the recovery file holds the rename of \<^verbatim>\<open>b/h\<close> alone: the
  renamed candidate \<^verbatim>\<open>b/f\<close> has the target name \<^verbatim>\<open>g\<close> of the failed one and is
  removed with it.
\<close>

theorem journal_misses_renamed_candidate:
  "map entry (errs (fst (snd (apply_op flatEnv opPartial fsB)))) = [fileChange ''a'' ''f'' ''g'']
   \<and> fst (snd (snd (apply_op flatEnv opPartial fsB))) ''b/f'' = None
   \<and> fst (snd (snd (apply_op flatEnv opPartial fsB))) ''b/g'' = Some (Bytes ''1'')
   \<and> fst (snd (snd (apply_op flatEnv opPartial fsB))) ''b/k'' = Some (Bytes ''2'')
   \<and> fst (apply_op flatEnv opPartial fsB)
       = Some (errSomeNotRenamed ''.f2_2021-03-5T14-07-09PM.json'')
   \<and> fst (snd (snd (apply_op flatEnv opPartial fsB))) ''.f2_2021-03-5T14-07-09PM.json''
       = Some (Doc \<lparr>Date = ''2021-03-05T14:07:09Z'',
                    Operations = [fileChange ''b'' ''h'' ''k'']\<rparr>)"
  by (simp add: apply_opPartial)

section \<open>The name of the recovery file\<close>

lemma appendInt_zero_width: "appendInt x 0 = digits x"
  by (simp add: appendInt_def)

lemma recoveryFile_one_digit_day:
  assumes "day t < 10"
  shows "recoveryFile t =
           ''.f2_'' @ appendInt (year t) 4 @ ''-'' @ appendInt (month t) 2 @ ''-''
           @ [''0123456789'' ! day t] @ ''T'' @ appendInt (hour t) 2 @ ''-''
           @ appendInt (minute t) 2 @ ''-'' @ appendInt (second t) 2
           @ (if hour t \<ge> 12 then ''PM'' else ''AM'') @ ''.json''"
  using assms
  by (simp add: recoveryFile_def formatRecovery_def appendInt_zero_width digits.simps)

text \<open>
  Claim C8, at 5 March 2021, 14:07:09: the layout \<^verbatim>\<open>2006-01-2T15-04-05PM\<close> prints
  the day of the month without padding, so the name of the recovery file is
  \<^verbatim>\<open>.f2_2021-03-5T14-07-09PM.json\<close> and not \<^verbatim>\<open>.f2_2021-03-05T14-07-09PM.json\<close>.
\<close>

theorem recoveryFile_day_unpadded:
  "recoveryFile \<lparr>year = 2021, month = 3, day = 5, hour = 14, minute = 7, second = 9,
                 zoneOffset = 0\<rparr>
     = ''.f2_2021-03-5T14-07-09PM.json''"
  by (simp add: recoveryFile_def formatRecovery_def appendInt_def digits.simps)

section \<open>The order of execution\<close>

text \<open>
  Claim C6, on the batch \<open>opSort\<close>, not in undo mode: the file of directory \<^verbatim>\<open>a\<close>
  comes first and the directory of \<^verbatim>\<open>a/bc\<close> second; after \<^verbatim>\<open>sortMatches\<close> the
  directory precedes the file. The comparison answers for the directory at position 1
  with the lengths of the base directories alone: it never looks at whether the other
  element is a file.
\<close>

theorem sortMatches_directory_before_file:
  "undoFile opSort = []
   \<and> \<not> IsDir (matches opSort ! 0) \<and> IsDir (matches opSort ! 1)
   \<and> matches (sortMatches opSort) = [matches opSort ! 1, matches opSort ! 0]"
  by (simp add: sortMatches_def SliceStable_def stableBlocks.simps stableMerge.simps
      insertionSort_def insertionSortFrom.simps insertLoop.simps Swap_def sortLess_def
      opSort_def op0_def fileChange_def)

section \<open>The sort permutes\<close>

lemma mset_Swap: "mset (Swap xs i j) = mset xs"
  by (simp add: Swap_def mset_swap)

lemma mset_insertLoop: "mset (insertLoop lt xs a j) = mset xs"
  by (induction lt xs a j rule: insertLoop.induct)
     (subst insertLoop.simps, simp add: mset_Swap)

lemma mset_insertionSortFrom: "mset (insertionSortFrom lt xs a b i) = mset xs"
  by (induction lt xs a b i rule: insertionSortFrom.induct)
     (subst insertionSortFrom.simps, simp add: mset_insertLoop)

lemma mset_insertionSort: "mset (insertionSort lt xs a b) = mset xs"
  by (simp add: insertionSort_def mset_insertionSortFrom)

lemma mset_swapRangeFrom: "mset (swapRangeFrom xs a b n i) = mset xs"
  by (induction xs a b n i rule: swapRangeFrom.induct)
     (subst swapRangeFrom.simps, simp add: mset_Swap)

lemma mset_swapRange: "mset (swapRange xs a b n) = mset xs"
  by (simp add: swapRange_def mset_swapRangeFrom)

lemma mset_rotateLoop: "mset (rotateLoop xs m i j) = mset xs"
  by (induction xs m i j rule: rotateLoop.induct)
     (subst rotateLoop.simps, simp add: mset_swapRange)

lemma mset_rotate_go: "mset (rotate_go xs a m b) = mset xs"
  by (simp add: rotate_go_def mset_rotateLoop)

lemma mset_shiftUp: "mset (shiftUp xs k i) = mset xs"
  by (induction xs k i rule: shiftUp.induct)
     (subst shiftUp.simps, simp add: mset_Swap)

lemma mset_shiftDown: "mset (shiftDown xs k i) = mset xs"
  by (induction xs k i rule: shiftDown.induct)
     (subst shiftDown.simps, simp add: mset_Swap)

lemma mset_symRotate: "mset (symRotate lt xs a m b) = mset xs"
  by (simp add: symRotate_def Let_def mset_rotate_go)

lemma mset_symMerge: "mset (symMerge lt xs a m b) = mset xs"
proof (induction lt xs a m b rule: symMerge.induct)
  case (1 lt xs a m b)
  show ?case
  proof (cases "m - a = 1 \<or> b - m = 1")
    case True
    then show ?thesis
      by (subst symMerge.simps) (auto simp add: mset_shiftUp mset_shiftDown)
  next
    case False
    define s where "s = symStart lt xs a m b"
    define xs2 where
      "xs2 = (if a < s \<and> s < (a + b) div 2
              then symMerge lt (symRotate lt xs a m b) a s ((a + b) div 2)
              else symRotate lt xs a m b)"
    have m2: "mset xs2 = mset xs"
      using False "1.IH"(1) by (simp add: xs2_def s_def mset_symRotate)
    have unfold: "symMerge lt xs a m b =
        (if (a + b) div 2 < (a + b) div 2 + m - s \<and> (a + b) div 2 + m - s < b
         then symMerge lt xs2 ((a + b) div 2) ((a + b) div 2 + m - s) b else xs2)"
      using False by (subst symMerge.simps) (simp add: Let_def xs2_def s_def)
    show ?thesis
    proof (cases "(a + b) div 2 < (a + b) div 2 + m - s \<and> (a + b) div 2 + m - s < b")
      case True
      have "mset (symMerge lt xs2 ((a + b) div 2) ((a + b) div 2 + m - s) b) = mset xs2"
        using False True "1.IH"(2) [OF _ _ xs2_def [unfolded s_def]]
        by (simp add: s_def xs2_def)
      then show ?thesis using True by (simp add: unfold m2)
    next
      case False
      then show ?thesis unfolding unfold using m2 by auto
    qed
  qed
qed

lemma mset_stableBlocks: "mset (stableBlocks lt xs a b n) = mset xs"
  by (induction lt xs a b n rule: stableBlocks.induct)
     (subst stableBlocks.simps, simp add: mset_insertionSort)

lemma mset_stablePass: "mset (stablePass lt xs a b n bs) = mset xs"
  by (induction lt xs a b n bs rule: stablePass.induct)
     (subst stablePass.simps, simp add: mset_symMerge)

lemma mset_stableMerge: "mset (stableMerge lt xs n bs) = mset xs"
  by (induction lt xs n bs rule: stableMerge.induct)
     (subst stableMerge.simps, simp add: mset_stablePass)

lemma mset_SliceStable: "mset (SliceStable lt xs) = mset xs"
  by (simp add: SliceStable_def mset_stableMerge mset_stableBlocks)

lemma mset_sortMatches: "mset (matches (sortMatches op)) = mset (matches op)"
  by (simp add: sortMatches_def mset_SliceStable)

section \<open>Renames that do not meet\<close>

lemma renameOne_flatEnv:
  "renameOne flatEnv c fs = flatRename fs (sourcePath c) (targetPath c)"
  by (simp add: renameOne_def flatEnv_sel Let_def sourcePath_def targetPath_def)

lemma renameStep_flat_present:
  assumes "fs (sourcePath c) = Some v"
  shows "renameStep flatEnv (es, fs) c = (es, (fs(sourcePath c := None))(targetPath c \<mapsto> v))"
  using assms by (simp add: renameStep_def renameOne_flatEnv flatRename_def)

lemma flat_loop_independent:
  assumes "distinct (map sourcePath ms)"
    and "distinct (map targetPath ms)"
    and "set (map sourcePath ms) \<inter> set (map targetPath ms) = {}"
    and "\<forall>c \<in> set ms. fs (sourcePath c) \<noteq> None"
  shows "fst (foldl (renameStep flatEnv) (es, fs) ms) = es
         \<and> (\<forall>c \<in> set ms. snd (foldl (renameStep flatEnv) (es, fs) ms) (targetPath c)
                              = fs (sourcePath c)
                          \<and> snd (foldl (renameStep flatEnv) (es, fs) ms) (sourcePath c) = None)
         \<and> (\<forall>p. p \<notin> set (map sourcePath ms) \<union> set (map targetPath ms)
                \<longrightarrow> snd (foldl (renameStep flatEnv) (es, fs) ms) p = fs p)"
  using assms
proof (induction ms arbitrary: fs)
  case Nil
  show ?case by simp
next
  case (Cons c ms)
  from Cons.prems(4) obtain v where v: "fs (sourcePath c) = Some v" by auto
  define fs1 where "fs1 = (fs(sourcePath c := None))(targetPath c \<mapsto> v)"
  have step: "foldl (renameStep flatEnv) (es, fs) (c # ms) = foldl (renameStep flatEnv) (es, fs1) ms"
    using v by (simp add: renameStep_flat_present [of fs c v es] fs1_def)
  have sc: "sourcePath c \<notin> set (map sourcePath ms)" "sourcePath c \<notin> set (map targetPath ms)"
    "targetPath c \<notin> set (map targetPath ms)" "targetPath c \<notin> set (map sourcePath ms)"
    "sourcePath c \<noteq> targetPath c"
    using Cons.prems(1,2,3) by auto
  have ne: "sourcePath d \<noteq> sourcePath c \<and> sourcePath d \<noteq> targetPath c
            \<and> targetPath d \<noteq> targetPath c \<and> targetPath d \<noteq> sourcePath c"
    if "d \<in> set ms" for d
    using sc that by (simp add: image_iff) metis
  have pres: "\<forall>d \<in> set ms. fs1 (sourcePath d) \<noteq> None"
  proof
    fix d assume d: "d \<in> set ms"
    then have "sourcePath d \<noteq> sourcePath c" "sourcePath d \<noteq> targetPath c"
      using ne by auto
    then show "fs1 (sourcePath d) \<noteq> None"
      using Cons.prems(4) d by (simp add: fs1_def)
  qed
  have ih: "fst (foldl (renameStep flatEnv) (es, fs1) ms) = es
         \<and> (\<forall>d \<in> set ms. snd (foldl (renameStep flatEnv) (es, fs1) ms) (targetPath d)
                              = fs1 (sourcePath d)
                          \<and> snd (foldl (renameStep flatEnv) (es, fs1) ms) (sourcePath d) = None)
         \<and> (\<forall>p. p \<notin> set (map sourcePath ms) \<union> set (map targetPath ms)
                \<longrightarrow> snd (foldl (renameStep flatEnv) (es, fs1) ms) p = fs1 p)"
    using Cons.prems(1,2,3) pres by (intro Cons.IH) auto
  let ?R = "snd (foldl (renameStep flatEnv) (es, fs1) ms)"
  have a: "fst (foldl (renameStep flatEnv) (es, fs) (c # ms)) = es"
    using ih step by simp
  have b: "?R (targetPath d) = fs (sourcePath d) \<and> ?R (sourcePath d) = None"
    if d: "d \<in> set (c # ms)" for d
  proof (cases "d \<in> set ms")
    case True
    then have "sourcePath d \<noteq> sourcePath c" "sourcePath d \<noteq> targetPath c"
      using ne by auto
    then have "fs1 (sourcePath d) = fs (sourcePath d)" by (simp add: fs1_def)
    with ih True show ?thesis by simp
  next
    case False
    with d have dc: "d = c" by simp
    have "?R (targetPath c) = fs1 (targetPath c)" "?R (sourcePath c) = fs1 (sourcePath c)"
      using ih sc by auto
    then show ?thesis using v sc(5) by (simp add: dc fs1_def)
  qed
  have c': "?R p = fs p"
    if p: "p \<notin> set (map sourcePath (c # ms)) \<union> set (map targetPath (c # ms))" for p
  proof -
    have "?R p = fs1 p" using ih p by auto
    also have "fs1 p = fs p" using p by (simp add: fs1_def)
    finally show ?thesis .
  qed
  show ?case
    unfolding step using a b c' step by auto
qed

lemma sortLess_validated:
  "sortLess (op\<lparr>matches := ms, conflicts := cs\<rparr>) = sortLess op"
  by (simp add: sortLess_def fun_eq_iff)

lemma apply_flat_clean:
  assumes m: "matches op \<noteq> []"
    and v: "detectConflicts fs op = (ms, Map.empty)"
    and x: "exec op"
    and s: "ms' = (if includeDir op \<or> undoFile op \<noteq> [] then SliceStable (sortLess op) ms else ms)"
    and e: "fst (foldl (renameStep flatEnv) ([], fs) ms') = []"
  shows "fst (apply_op flatEnv op fs) = None
         \<and> fst (snd (snd (apply_op flatEnv op fs))) =
             (if outputFile op = [] then snd (foldl (renameStep flatEnv) ([], fs) ms')
              else (snd (foldl (renameStep flatEnv) ([], fs) ms'))
                     (outputFile op \<mapsto>
                        Doc \<lparr>Date = ''2021-03-05T14:07:09Z'', Operations = ms'\<rparr>))"
proof -
  define op1 where "op1 = op\<lparr>matches := ms, conflicts := Map.empty\<rparr>"
  define op2 where "op2 = (if includeDir op1 \<or> undoFile op1 \<noteq> [] then sortMatches op1 else op1)"
  have op2: "op2 = op1\<lparr>matches := ms'\<rparr>"
    by (simp add: op2_def s sortMatches_def op1_def sortLess_validated)
  have r: "rename flatEnv op2 fs
           = (op2\<lparr>errs := []\<rparr>, snd (foldl (renameStep flatEnv) ([], fs) ms'))"
    using e by (simp add: rename_def Let_def op2)
  have a: "apply_op flatEnv op fs =
     (let r = rename flatEnv op2 fs
      in if length (errs (fst r)) > 0 then handleErrors flatEnv (fst r) (snd r)
         else if outputFile (fst r) \<noteq> []
         then (let w = writeToFile flatEnv (fst r) (outputFile (fst r)) (snd r)
               in (fst w, fst r, snd w, []))
         else (None, fst r, snd r, []))"
    using m x unfolding apply_op_def Let_def flatEnv_sel v op2_def op1_def by simp
  show ?thesis
    unfolding a r Let_def
    by (simp add: writeToFile_flat op2 op1_def)
qed

lemma sourcePath_swapChange: "sourcePath (swapChange c) = targetPath c"
  by (simp add: sourcePath_def targetPath_def swapChange_def)

lemma targetPath_swapChange: "targetPath (swapChange c) = sourcePath c"
  by (simp add: sourcePath_def targetPath_def swapChange_def)

lemma undo_flat_journal:
  assumes "fs (undoFile op) = Some (Doc mf)" and "exec op"
  shows "undo flatEnv op fs = apply_op flatEnv (op\<lparr>matches := map swapChange (Operations mf)\<rparr>) fs"
  using assms by (simp add: undo_def flatEnv_sel flatReadFile_def flatUnmarshal_def Let_def)

text \<open>
  A round trip in the small filesystem. A batch is run in execute mode with an output
  file \<open>jf\<close> and without the execution sort: no two candidates share a source path or a
  target path, no target path is a source path, every source exists, and the validator
  passes the batch as it is. Then \<^verbatim>\<open>apply\<close> returns nil and writes the journal of the
  whole batch to \<open>jf\<close>. If the validator also passes the swapped batch, \<^verbatim>\<open>undo\<close> on
  that journal, run without an output file, returns nil and every entry is back: its
  source path holds what it held before the batch and its target path is free.
\<close>

lemma undo_restores_independent_batch:
  assumes batch: "matches op = ms" "ms \<noteq> []" "exec op" "\<not> includeDir op" "undoFile op = []"
      "outputFile op = jf" "jf \<noteq> []"
    and passes: "detectConflicts fs0 op = (ms, Map.empty)"
    and indep: "distinct (map sourcePath ms)" "distinct (map targetPath ms)"
      "set (map sourcePath ms) \<inter> set (map targetPath ms) = {}"
      "jf \<notin> set (map sourcePath ms) \<union> set (map targetPath ms)"
    and present: "\<forall>c \<in> set ms. fs0 (sourcePath c) \<noteq> None"
    and undoOp: "undoFile opU = jf" "exec opU" "outputFile opU = []"
    and passesU: "detectConflicts (fst (snd (snd (apply_op flatEnv op fs0))))
                    (opU\<lparr>matches := map swapChange ms\<rparr>) = (map swapChange ms, Map.empty)"
  shows "fst (apply_op flatEnv op fs0) = None
     \<and> fst (snd (snd (apply_op flatEnv op fs0))) jf
         = Some (Doc \<lparr>Date = ''2021-03-05T14:07:09Z'', Operations = ms\<rparr>)
     \<and> fst (undo flatEnv opU (fst (snd (snd (apply_op flatEnv op fs0))))) = None
     \<and> (\<forall>c \<in> set ms.
           fst (snd (snd (undo flatEnv opU (fst (snd (snd (apply_op flatEnv op fs0)))))))
             (sourcePath c) = fs0 (sourcePath c)
         \<and> fst (snd (snd (undo flatEnv opU (fst (snd (snd (apply_op flatEnv op fs0)))))))
             (targetPath c) = None)"
proof -
  define F1 where "F1 = snd (foldl (renameStep flatEnv) ([], fs0) ms)"
  define fs1 where "fs1 = fst (snd (snd (apply_op flatEnv op fs0)))"
  have loop1: "fst (foldl (renameStep flatEnv) ([], fs0) ms) = []
      \<and> (\<forall>c \<in> set ms. F1 (targetPath c) = fs0 (sourcePath c) \<and> F1 (sourcePath c) = None)"
    using flat_loop_independent [OF indep(1,2,3) present, of "[]"] by (simp add: F1_def)
  have fwd: "fst (apply_op flatEnv op fs0) = None
      \<and> fs1 = F1(jf \<mapsto> Doc \<lparr>Date = ''2021-03-05T14:07:09Z'', Operations = ms\<rparr>)"
    unfolding fs1_def F1_def
    using apply_flat_clean [of op fs0 ms ms] batch passes loop1 by simp
  have jf_ne: "sourcePath c \<noteq> jf \<and> targetPath c \<noteq> jf" if "c \<in> set ms" for c
    using indep(4) that by (auto simp add: image_iff)
  have st1: "fs1 (targetPath c) = fs0 (sourcePath c) \<and> fs1 (sourcePath c) = None"
    if "c \<in> set ms" for c
    using fwd loop1 jf_ne [OF that] that by auto
  have journal: "fs1 jf = Some (Doc \<lparr>Date = ''2021-03-05T14:07:09Z'', Operations = ms\<rparr>)"
    using fwd by simp
  define opU1 where "opU1 = opU\<lparr>matches := map swapChange ms\<rparr>"
  define ms' where "ms' = SliceStable (sortLess opU1) (map swapChange ms)"
  have u: "undo flatEnv opU fs1 = apply_op flatEnv opU1 fs1"
    using undo_flat_journal [of fs1 opU] journal undoOp by (simp add: opU1_def)
  have perm: "mset ms' = mset (map swapChange ms)"
    by (simp add: ms'_def mset_SliceStable)
  have set': "set ms' = swapChange ` set ms"
    using mset_eq_setD [OF perm] by simp
  have "mset (map sourcePath ms') = mset (map targetPath ms)"
    using perm by (metis (no_types, lifting) map_map mset_map comp_def sourcePath_swapChange map_cong)
  then have d1: "distinct (map sourcePath ms')"
    using indep(2) mset_eq_imp_distinct_iff by blast
  have "mset (map targetPath ms') = mset (map sourcePath ms)"
    using perm by (metis (no_types, lifting) map_map mset_map comp_def targetPath_swapChange map_cong)
  then have d2: "distinct (map targetPath ms')"
    using indep(1) mset_eq_imp_distinct_iff by blast
  have d3: "set (map sourcePath ms') \<inter> set (map targetPath ms') = {}"
  proof -
    have "set (map sourcePath ms') = set (map targetPath ms)"
      "set (map targetPath ms') = set (map sourcePath ms)"
      by (auto simp add: set' sourcePath_swapChange targetPath_swapChange image_iff)
    then show ?thesis using indep(3) by blast
  qed
  have d4: "\<forall>d \<in> set ms'. fs1 (sourcePath d) \<noteq> None"
    using st1 present by (auto simp add: set' sourcePath_swapChange)
  define F2 where "F2 = snd (foldl (renameStep flatEnv) ([], fs1) ms')"
  have loop2: "fst (foldl (renameStep flatEnv) ([], fs1) ms') = []
      \<and> (\<forall>d \<in> set ms'. F2 (targetPath d) = fs1 (sourcePath d) \<and> F2 (sourcePath d) = None)"
    using flat_loop_independent [OF d1 d2 d3 d4, of "[]"] by (simp add: F2_def)
  have bwd: "fst (apply_op flatEnv opU1 fs1) = None
      \<and> fst (snd (snd (apply_op flatEnv opU1 fs1))) = F2"
    unfolding F2_def
    using apply_flat_clean [of opU1 fs1 "map swapChange ms" ms'] batch(2,7) undoOp passesU loop2
    by (simp add: opU1_def ms'_def fs1_def)
  have restored: "F2 (sourcePath c) = fs0 (sourcePath c) \<and> F2 (targetPath c) = None"
    if "c \<in> set ms" for c
  proof -
    have "swapChange c \<in> set ms'" using that by (simp add: set')
    with loop2 have "F2 (targetPath (swapChange c)) = fs1 (sourcePath (swapChange c))
        \<and> F2 (sourcePath (swapChange c)) = None"
      by blast
    then show ?thesis
      using st1 [OF that] by (simp add: sourcePath_swapChange targetPath_swapChange)
  qed
  show ?thesis
    using fwd journal u bwd restored unfolding fs1_def [symmetric] by simp
qed

section \<open>Undo, evaluated\<close>

lemma sortUndo_two:
  "length (BaseDir c) = length (BaseDir d) \<Longrightarrow> undoFile op \<noteq> [] \<Longrightarrow>
   SliceStable (sortLess op) [c, d] = [c, d]"
  by (simp add: SliceStable_def stableBlocks.simps stableMerge.simps insertionSort_def
      insertionSortFrom.simps insertLoop.simps sortLess_def)

lemma sortUndo_one: "SliceStable lt [c] = [c]"
  by (simp add: SliceStable_def stableBlocks.simps stableMerge.simps insertionSort_def
      insertionSortFrom.simps)

lemma detect_opChain: "detectConflicts fsXZ opChain = (matches opChain, Map.empty)"
  by (simp add: detectConflicts_def opChain_def op0_def fileChange_def joinPath_def fsXZ_def
      putConflict_def Let_def)

lemma loop_opChain:
  "foldl (renameStep flatEnv) ([], fsXZ) (matches opChain)
     = ([], [''a/y'' \<mapsto> Bytes ''X'', ''a/x'' \<mapsto> Bytes ''Z''])"
  by (simp add: opChain_def renameStep_def renameOne_flatEnv flatRename_def sourcePath_def
      targetPath_def fileChange_def joinPath_def fsXZ_def)

lemma apply_opChain:
  "fst (apply_op flatEnv opChain fsXZ) = None
   \<and> fst (snd (snd (apply_op flatEnv opChain fsXZ)))
       = [''a/y'' \<mapsto> Bytes ''X'', ''a/x'' \<mapsto> Bytes ''Z'',
          ''j.json'' \<mapsto> Doc \<lparr>Date = ''2021-03-05T14:07:09Z'',
                              Operations = [fileChange ''a'' ''x'' ''y'',
                                            fileChange ''a'' ''z'' ''x'']\<rparr>]"
proof -
  have p: "matches opChain \<noteq> []" "exec opChain" "\<not> includeDir opChain"
    "undoFile opChain = []" "outputFile opChain = ''j.json''"
    "matches opChain = [fileChange ''a'' ''x'' ''y'', fileChange ''a'' ''z'' ''x'']"
    by (simp_all add: opChain_def op0_def)
  have e: "fst (foldl (renameStep flatEnv) ([], fsXZ) (matches opChain)) = []"
    by (simp only: loop_opChain fst_conv)
  have s: "matches opChain =
      (if includeDir opChain \<or> undoFile opChain \<noteq> []
       then SliceStable (sortLess opChain) (matches opChain) else matches opChain)"
    using p by simp
  have r: "fst (apply_op flatEnv opChain fsXZ) = None
      \<and> fst (snd (snd (apply_op flatEnv opChain fsXZ))) =
          [''a/y'' \<mapsto> Bytes ''X'', ''a/x'' \<mapsto> Bytes ''Z'',
           ''j.json'' \<mapsto> Doc \<lparr>Date = ''2021-03-05T14:07:09Z'',
                               Operations = matches opChain\<rparr>]"
    using apply_flat_clean [OF p(1) detect_opChain p(2) s e]
    unfolding loop_opChain by (simp add: p(5))
  show ?thesis using r by (simp add: p(6))
qed

lemma undo_opChain:
  "fst (undo flatEnv opUndo
          [''a/y'' \<mapsto> Bytes ''X'', ''a/x'' \<mapsto> Bytes ''Z'',
           ''j.json'' \<mapsto> Doc \<lparr>Date = ''2021-03-05T14:07:09Z'',
                              Operations = [fileChange ''a'' ''x'' ''y'',
                                            fileChange ''a'' ''z'' ''x'']\<rparr>]) = None
   \<and> fst (snd (snd (undo flatEnv opUndo
          [''a/y'' \<mapsto> Bytes ''X'', ''a/x'' \<mapsto> Bytes ''Z'',
           ''j.json'' \<mapsto> Doc \<lparr>Date = ''2021-03-05T14:07:09Z'',
                              Operations = [fileChange ''a'' ''x'' ''y'',
                                            fileChange ''a'' ''z'' ''x'']\<rparr>])))
       = [''j.json'' \<mapsto> Doc \<lparr>Date = ''2021-03-05T14:07:09Z'',
                              Operations = [fileChange ''a'' ''x'' ''y'',
                                            fileChange ''a'' ''z'' ''x'']\<rparr>,
          ''a/z'' \<mapsto> Bytes ''X'']"
proof -
  define X :: flatfs where "X = [''j.json'' \<mapsto> Doc \<lparr>Date = ''2021-03-05T14:07:09Z'',
                              Operations = [fileChange ''a'' ''x'' ''y'',
                                            fileChange ''a'' ''z'' ''x'']\<rparr>,
          ''a/z'' \<mapsto> Bytes ''X'']"
  define fs1 :: flatfs where "fs1 = [''a/y'' \<mapsto> Bytes ''X'', ''a/x'' \<mapsto> Bytes ''Z'',
           ''j.json'' \<mapsto> Doc \<lparr>Date = ''2021-03-05T14:07:09Z'',
                              Operations = [fileChange ''a'' ''x'' ''y'',
                                            fileChange ''a'' ''z'' ''x'']\<rparr>]"
  define rev where "rev = opUndo\<lparr>matches := [swapChange (fileChange ''a'' ''x'' ''y''),
                                            swapChange (fileChange ''a'' ''z'' ''x'')]\<rparr>"
  have p: "exec opUndo" "undoFile opUndo = ''j.json''" "outputFile opUndo = []"
    "\<not> includeDir opUndo"
    by (simp_all add: opUndo_def op0_def)
  have u: "undo flatEnv opUndo fs1 = apply_op flatEnv rev fs1"
    using undo_flat_journal [of fs1 opUndo] p by (simp add: fs1_def rev_def)
  have q: "matches rev \<noteq> []" "exec rev" "undoFile rev = ''j.json''" "outputFile rev = []"
    by (simp_all add: rev_def p)
  have d: "detectConflicts fs1 rev = (matches rev, Map.empty)"
    by (simp add: detectConflicts_def rev_def swapChange_def fileChange_def joinPath_def
        fs1_def putConflict_def Let_def)
  have s: "SliceStable (sortLess rev) (matches rev) = matches rev"
    using sortUndo_two [of "swapChange (fileChange ''a'' ''x'' ''y'')"
        "swapChange (fileChange ''a'' ''z'' ''x'')" rev] q
    by (simp add: rev_def swapChange_def fileChange_def)
  have l: "foldl (renameStep flatEnv) ([], fs1) (matches rev) = ([], X)"
    by (simp add: rev_def renameStep_def renameOne_flatEnv flatRename_def sourcePath_def
        targetPath_def swapChange_def fileChange_def joinPath_def fs1_def X_def)
  have e: "fst (foldl (renameStep flatEnv) ([], fs1) (matches rev)) = []"
    by (simp only: l fst_conv)
  have s': "matches rev =
      (if includeDir rev \<or> undoFile rev \<noteq> []
       then SliceStable (sortLess rev) (matches rev) else matches rev)"
    using s by simp
  have r: "fst (apply_op flatEnv rev fs1) = None
      \<and> fst (snd (snd (apply_op flatEnv rev fs1))) = X"
    using apply_flat_clean [OF q(1) d q(2) s' e]
    unfolding l by (simp add: q(4))
  show ?thesis
    unfolding fs1_def [symmetric] X_def [symmetric] u using r by simp
qed

text \<open>
  Claim C2, on the chain \<open>opChain\<close> and the filesystem \<open>fsXZ\<close>: \<^verbatim>\<open>apply\<close> renames
  \<^verbatim>\<open>a/x\<close> to \<^verbatim>\<open>a/y\<close> and \<^verbatim>\<open>a/z\<close> to \<^verbatim>\<open>a/x\<close>, returns nil and writes the
  journal. \<^verbatim>\<open>undo\<close> on that journal returns nil too, but it renames in the order of the
  journal and not in reverse: \<^verbatim>\<open>a/y\<close> goes back to \<^verbatim>\<open>a/x\<close> over the file that came
  from \<^verbatim>\<open>a/z\<close>, and that name then moves to \<^verbatim>\<open>a/z\<close>. In the end \<^verbatim>\<open>a/x\<close> does not
  exist, \<^verbatim>\<open>a/z\<close> holds what \<^verbatim>\<open>a/x\<close> held, and what \<^verbatim>\<open>a/z\<close> held is lost. The
  comment on \<^verbatim>\<open>undo\<close> says that it reverses a successful renaming operation.
\<close>

theorem undo_chain_not_restored:
  "fst (apply_op flatEnv opChain fsXZ) = None
   \<and> fst (snd (snd (apply_op flatEnv opChain fsXZ))) ''j.json''
       = Some (Doc \<lparr>Date = ''2021-03-05T14:07:09Z'', Operations = matches opChain\<rparr>)
   \<and> fst (undo flatEnv opUndo (fst (snd (snd (apply_op flatEnv opChain fsXZ))))) = None
   \<and> fsXZ ''a/x'' = Some (Bytes ''X'') \<and> fsXZ ''a/z'' = Some (Bytes ''Z'')
   \<and> fst (snd (snd (undo flatEnv opUndo (fst (snd (snd (apply_op flatEnv opChain fsXZ)))))))
         ''a/x'' = None
   \<and> fst (snd (snd (undo flatEnv opUndo (fst (snd (snd (apply_op flatEnv opChain fsXZ)))))))
         ''a/z'' = Some (Bytes ''X'')"
  by (simp add: apply_opChain undo_opChain) (simp add: opChain_def fsXZ_def)

lemma detect_opRound: "detectConflicts fsXY opRound = (matches opRound, Map.empty)"
  by (simp add: detectConflicts_def opRound_def op0_def fileChange_def joinPath_def fsXY_def
      putConflict_def Let_def)

lemma loop_opRound:
  "foldl (renameStep flatEnv) ([], fsXY) (matches opRound)
     = ([], [''a/p'' \<mapsto> Bytes ''1'', ''a/q'' \<mapsto> Bytes ''2''])"
  by (simp add: opRound_def renameStep_def renameOne_flatEnv flatRename_def sourcePath_def
      targetPath_def fileChange_def joinPath_def fsXY_def)

lemma apply_opRound:
  "fst (snd (snd (apply_op flatEnv opRound fsXY)))
     = [''a/p'' \<mapsto> Bytes ''1'', ''a/q'' \<mapsto> Bytes ''2'',
        ''j.json'' \<mapsto> Doc \<lparr>Date = ''2021-03-05T14:07:09Z'',
                            Operations = matches opRound\<rparr>]"
proof -
  have p: "matches opRound \<noteq> []" "exec opRound" "\<not> includeDir opRound"
    "undoFile opRound = []" "outputFile opRound = ''j.json''"
    by (simp_all add: opRound_def op0_def)
  have e: "fst (foldl (renameStep flatEnv) ([], fsXY) (matches opRound)) = []"
    by (simp only: loop_opRound fst_conv)
  have s: "matches opRound =
      (if includeDir opRound \<or> undoFile opRound \<noteq> []
       then SliceStable (sortLess opRound) (matches opRound) else matches opRound)"
    using p by simp
  show ?thesis
    using apply_flat_clean [OF p(1) detect_opRound p(2) s e]
    unfolding loop_opRound by (simp add: p(5))
qed

lemma undo_restores_independent_batch_example:
  "matches opRound = [fileChange ''a'' ''x'' ''p'', fileChange ''a'' ''y'' ''q'']
   \<and> exec opRound \<and> outputFile opRound = ''j.json''
   \<and> undoFile opUndo = ''j.json'' \<and> exec opUndo
   \<and> fst (apply_op flatEnv opRound fsXY) = None
   \<and> fst (undo flatEnv opUndo (fst (snd (snd (apply_op flatEnv opRound fsXY))))) = None
   \<and> fst (snd (snd (undo flatEnv opUndo (fst (snd (snd (apply_op flatEnv opRound fsXY)))))))
        ''a/x'' = Some (Bytes ''1'')
   \<and> fst (snd (snd (undo flatEnv opUndo (fst (snd (snd (apply_op flatEnv opRound fsXY)))))))
        ''a/y'' = Some (Bytes ''2'')
   \<and> fst (snd (snd (undo flatEnv opUndo (fst (snd (snd (apply_op flatEnv opRound fsXY)))))))
        ''a/p'' = None"
proof -
  define ms where "ms = [fileChange ''a'' ''x'' ''p'', fileChange ''a'' ''y'' ''q'']"
  have b: "matches opRound = ms" "ms \<noteq> []" "exec opRound" "\<not> includeDir opRound"
    "undoFile opRound = []" "outputFile opRound = ''j.json''" "''j.json'' \<noteq> []"
    by (simp_all add: opRound_def op0_def ms_def)
  have v: "detectConflicts fsXY opRound = (ms, Map.empty)"
    using detect_opRound b(1) by simp
  have i: "distinct (map sourcePath ms)" "distinct (map targetPath ms)"
    "set (map sourcePath ms) \<inter> set (map targetPath ms) = {}"
    "''j.json'' \<notin> set (map sourcePath ms) \<union> set (map targetPath ms)"
    by (simp_all add: ms_def sourcePath_def targetPath_def fileChange_def joinPath_def)
  have pr: "\<forall>c \<in> set ms. fsXY (sourcePath c) \<noteq> None"
    by (simp add: ms_def sourcePath_def fileChange_def joinPath_def fsXY_def)
  have u: "undoFile opUndo = ''j.json''" "exec opUndo" "outputFile opUndo = []"
    by (simp_all add: opUndo_def op0_def)
  have vu: "detectConflicts (fst (snd (snd (apply_op flatEnv opRound fsXY))))
              (opUndo\<lparr>matches := map swapChange ms\<rparr>) = (map swapChange ms, Map.empty)"
    unfolding apply_opRound
    by (simp add: detectConflicts_def ms_def swapChange_def fileChange_def joinPath_def
        putConflict_def Let_def)
  have x: "fileChange ''a'' ''x'' ''p'' \<in> set ms" "fileChange ''a'' ''y'' ''q'' \<in> set ms"
    by (simp_all add: ms_def)
  have sp: "sourcePath (fileChange ''a'' ''x'' ''p'') = ''a/x''"
    "sourcePath (fileChange ''a'' ''y'' ''q'') = ''a/y''"
    "targetPath (fileChange ''a'' ''x'' ''p'') = ''a/p''"
    by (simp_all add: sourcePath_def targetPath_def fileChange_def joinPath_def)
  have f: "fsXY ''a/x'' = Some (Bytes ''1'')" "fsXY ''a/y'' = Some (Bytes ''2'')"
    by (simp_all add: fsXY_def)
  note t = undo_restores_independent_batch [OF b v i pr u vu]
  show ?thesis
    using t x sp f b u by (auto simp add: ms_def)
qed

section \<open>Undo and the validator\<close>






end
